theory Spec2Isabelle
  imports Complex_Main
begin

section \<open>Galaxy Night Sky: a shallow embedding of script.js\<close>

text \<open>
  The script keeps its scene in module-level variables and changes them from the frame
  callback and from event handlers. Here the variables are the fields of one record,
  and every function of the script takes the scene and returns the new one.

  Numbers of the script are IEEE doubles; they are modelled as real numbers, so rounding,
  infinities and NaN are not represented. Where the script divides by zero (a viewport of
  width 0 in \<^verbatim>\<open>onPointer\<close>, a band of width 0, a lifespan 0) the quotient of the model
  is 0; no theorem below depends on the value of such a quotient.

  \<^verbatim>\<open>Math.random()\<close> is an input: a sequence \<open>rnd\<close> of reals, read at a position
  \<open>rpos\<close> that the scene carries and every draw advances. \<^verbatim>\<open>performance.now()\<close>
  is an input of the function that reads it.
\<close>

subsection \<open>Constants\<close>

definition STAR_COUNT :: int where "STAR_COUNT = 420"
definition BAND_COUNT :: int where "BAND_COUNT = 420"
definition CLOUD_NODES :: int where "CLOUD_NODES = 800"
definition METEOR_MIN_GAP :: real where "METEOR_MIN_GAP = 3800"
definition METEOR_MAX_GAP :: real where "METEOR_MAX_GAP = 9500"
definition TWO_PI :: real where "TWO_PI = pi * 2"

subsection \<open>Utilities\<close>

type_synonym rsource = "nat \<Rightarrow> real"

text \<open>\<^verbatim>\<open>rand(min, max)\<close>, given the value \<open>u\<close> that \<^verbatim>\<open>Math.random()\<close> returned.\<close>

definition rand :: "real \<Rightarrow> real \<Rightarrow> real \<Rightarrow> real" where
  "rand u lo hi = u * (hi - lo) + lo"

definition randInt :: "real \<Rightarrow> real \<Rightarrow> real \<Rightarrow> int" where
  "randInt u lo hi = \<lfloor>rand u lo (hi + 1)\<rfloor>"

definition clamp :: "real \<Rightarrow> real \<Rightarrow> real \<Rightarrow> real" where
  "clamp v a b = max a (min b v)"

definition degToRad :: "real \<Rightarrow> real" where
  "degToRad d = d * pi / 180"

definition hypot :: "real \<Rightarrow> real \<Rightarrow> real" where
  "hypot a b = sqrt (a * a + b * b)"

text \<open>
  The two loops of \<^verbatim>\<open>gaussian()\<close>, \<^verbatim>\<open>while (u === 0) u = Math.random()\<close>: the
  loop may run forever (on a source that is 0 from some position on), so not returning
  is the value \<open>None\<close>.
\<close>

partial_function (option) drawNonzero :: "rsource \<Rightarrow> real \<Rightarrow> nat \<Rightarrow> (real \<times> nat) option" where
  "drawNonzero rnd u p = (if u = 0 then drawNonzero rnd (rnd p) (Suc p) else Some (u, p))"

definition gaussian :: "rsource \<Rightarrow> nat \<Rightarrow> (real \<times> nat) option" where
  "gaussian rnd p =
     (case drawNonzero rnd 0 p of
        None \<Rightarrow> None
      | Some (u, p1) \<Rightarrow>
          (case drawNonzero rnd 0 p1 of
             None \<Rightarrow> None
           | Some (v, p2) \<Rightarrow> Some (sqrt (- 2.0 * ln u) * cos (2.0 * pi * v), p2)))"

subsection \<open>Scene state\<close>

text \<open>
  A star. The script stores two colour strings built from the hue \<open>tone\<close>; the model
  stores the hue.
\<close>

record star =
  s_x :: real
  s_y :: real
  s_r :: real
  baseAlpha :: real
  twinkleSpeed :: real
  phase :: real
  tone :: real
  depth :: real

record sample =
  t_x :: real
  t_y :: real
  t_t :: real

record meteor =
  m_x :: real
  m_y :: real
  vx :: real
  vy :: real
  life :: real
  age :: real
  trail :: "sample list"

record parallax =
  p_x :: real
  p_y :: real
  targetX :: real
  targetY :: real

text \<open>
  The offscreen canvas of the Milky Way: its pixel size and the blobs painted on it
  (centre, radius and centre alpha of each radial gradient).
\<close>

record blob =
  b_x :: real
  b_y :: real
  b_size :: real
  b_alpha :: real

record texture =
  tex_width :: int
  tex_height :: int
  blobs :: "blob list"

record milky =
  angle :: real
  width :: real
  texture :: "texture option"
  dirty :: bool

record scene =
  DPR :: real
  W :: real
  H :: real
  stars :: "star list"
  bandStars :: "star list"
  meteor :: "meteor option"
  nextMeteorAt :: real
  parallax :: parallax
  milky :: milky
  lastT :: real
  chkTwinkle :: bool
  chkMeteors :: bool
  chkMilky :: bool
  rpos :: nat

text \<open>What a function paints, in order: the calls on the 2D context that matter here.\<close>

datatype draw_op =
    ClearRect real real
  | CreateCanvas int int
  | DrawImage texture real real real
  | StarDisc real real real real
  | StarCross real real real real
  | TrailSegment int real real sample sample
  | MeteorHead real real real

subsection \<open>Meteors\<close>

definition spawnMeteor :: "rsource \<Rightarrow> scene \<Rightarrow> scene" where
  "spawnMeteor rnd s =
     (let p = rpos s;
          fromLeft = (rnd p < 0.5);
          startX = (if fromLeft then rand (rnd (p + 1)) (- W s * 0.2) (W s * 0.1)
                    else rand (rnd (p + 1)) (W s * 0.9) (W s * 1.2));
          startY = rand (rnd (p + 2)) (- H s * 0.1) (H s * 0.35);
          baseAngle = angle (milky s) + (if fromLeft then 0 else pi);
          a = baseAngle + degToRad (rand (rnd (p + 3)) (- 8) 8);
          speed = rand (rnd (p + 4)) 650 1150 / 1000 * max (W s) (H s)
      in s\<lparr>meteor := Some \<lparr>m_x = startX, m_y = startY,
                             vx = cos a * speed, vy = sin a * speed,
                             life = rand (rnd (p + 5)) 500 1100,
                             age = 0, trail = []\<rparr>,
            rpos := p + 6\<rparr>)"

text \<open>The spawn test of \<^verbatim>\<open>handleMeteors\<close> (the condition of its first \<^verbatim>\<open>if\<close>).\<close>

definition spawnDue :: "real \<Rightarrow> scene \<Rightarrow> bool" where
  "spawnDue now s \<longleftrightarrow>
     chkMeteors s \<and>
     (case meteor s of None \<Rightarrow> True | Some m \<Rightarrow> age m > life m) \<and>
     now \<ge> nextMeteorAt s"

definition spawnPhase :: "rsource \<Rightarrow> real \<Rightarrow> scene \<Rightarrow> scene" where
  "spawnPhase rnd now s =
     (if spawnDue now s then
        (let s1 = spawnMeteor rnd s
         in s1\<lparr>nextMeteorAt := now + rand (rnd (rpos s1)) METEOR_MIN_GAP METEOR_MAX_GAP,
                rpos := rpos s1 + 1\<rparr>)
      else s)"

text \<open>Age, motion and trail of one step (\<^verbatim>\<open>step = dt\<close>).\<close>

definition pushTrail :: "sample list \<Rightarrow> sample \<Rightarrow> sample list" where
  "pushTrail tr smp = (let tr1 = tr @ [smp] in if length tr1 > 120 then tl tr1 else tr1)"

definition advanceMeteor :: "real \<Rightarrow> meteor \<Rightarrow> meteor" where
  "advanceMeteor dt m =
     (let step = dt;
          age1 = age m + step;
          x1 = m_x m + vx m * (step / 1000);
          y1 = m_y m + vy m * (step / 1000)
      in m\<lparr>age := age1, m_x := x1, m_y := y1,
            trail := pushTrail (trail m) \<lparr>t_x = x1, t_y = y1, t_t = age1\<rparr>\<rparr>)"

text \<open>
  The trail loop \<^verbatim>\<open>for (i = trail.length - 1; i > 0; i--)\<close>; each segment draws a
  random hue, so each iteration reads the source once.
\<close>

fun drawTrail :: "rsource \<Rightarrow> sample list \<Rightarrow> nat \<Rightarrow> nat \<Rightarrow> draw_op list" where
  "drawTrail rnd tr p 0 = []"
| "drawTrail rnd tr p (Suc j) =
     (let i = Suc j;
          a = tr ! i;
          b = tr ! j;
          k = real i / real (length tr);
          w = clamp (2.8 * k) 0.2 2.8
      in TrailSegment (randInt (rnd p) 205 230) (0.06 + k * 0.25) w a b
           # drawTrail rnd tr (Suc p) j)"

text \<open>The test of the cleanup at the end of \<^verbatim>\<open>handleMeteors\<close>.\<close>

definition cullDue :: "scene \<Rightarrow> meteor \<Rightarrow> bool" where
  "cullDue s m \<longleftrightarrow>
     age m > life m \<or>
     m_x m < - 200 \<or> m_x m > W s + 200 \<or>
     m_y m < - 200 \<or> m_y m > H s + 200"

definition updatePhase :: "rsource \<Rightarrow> real \<Rightarrow> scene \<Rightarrow> scene \<times> draw_op list" where
  "updatePhase rnd dt s =
     (case meteor s of
        None \<Rightarrow> (s, [])
      | Some m \<Rightarrow>
          (let m1 = advanceMeteor dt m;
               n = length (trail m1) - 1;
               segs = drawTrail rnd (trail m1) (rpos s) n;
               headAlpha = clamp (1 - age m1 / life m1) 0.15 0.9;
               ops = segs @ [MeteorHead (m_x m1) (m_y m1) headAlpha];
               s1 = s\<lparr>rpos := rpos s + n\<rparr>
           in if cullDue s1 m1 then (s1\<lparr>meteor := None\<rparr>, ops)
              else (s1\<lparr>meteor := Some m1\<rparr>, ops)))"

text \<open>\<^verbatim>\<open>handleMeteors(dt)\<close>; \<open>now\<close> is what \<^verbatim>\<open>performance.now()\<close> returns in it.\<close>

definition handleMeteors :: "rsource \<Rightarrow> real \<Rightarrow> real \<Rightarrow> scene \<Rightarrow> scene \<times> draw_op list" where
  "handleMeteors rnd now dt s = updatePhase rnd dt (spawnPhase rnd now s)"

subsection \<open>Star fields\<close>

text \<open>
  \<^verbatim>\<open>makeStars(count, minDepth, maxDepth)\<close>: the body of the loop builds one star
  (\<open>makeStar\<close>), the loop runs over \<open>i\<close> with the array built so far and the position in
  the random source. Each star reads the source eight times, in the order of the script:
  depth, radius jitter, hue, x, y, base alpha, twinkle speed, phase.
  \<^verbatim>\<open>Math.pow(b, 1.2)\<close> is \<open>b powr 1.2\<close>, which agrees with it for \<open>b \<ge> 0\<close>; for
  \<open>b < 0\<close>, that is for a depth above 1, the power of the script is NaN.
\<close>

definition makeStar :: "rsource \<Rightarrow> real \<Rightarrow> real \<Rightarrow> real \<Rightarrow> real \<Rightarrow> nat \<Rightarrow> star" where
  "makeStar rnd w h minDepth maxDepth p =
     (let dep = rand (rnd p) minDepth maxDepth;
          r = (1 - dep) powr 1.2 * rand (rnd (p + 1)) 0.6 1.8 + 0.3;
          tn = rand (rnd (p + 2)) 210 265
      in \<lparr>s_x = rnd (p + 3) * w, s_y = rnd (p + 4) * h, s_r = r,
          baseAlpha = rand (rnd (p + 5)) 0.25 0.85,
          twinkleSpeed = rand (rnd (p + 6)) 0.6 1.8,
          phase = rand (rnd (p + 7)) 0 TWO_PI,
          tone = tn, depth = dep\<rparr>)"

function makeStarsLoop ::
  "rsource \<Rightarrow> real \<Rightarrow> real \<Rightarrow> int \<Rightarrow> real \<Rightarrow> real \<Rightarrow> int \<Rightarrow> nat \<Rightarrow> star list \<Rightarrow> star list \<times> nat" where
  "makeStarsLoop rnd w h count minDepth maxDepth i p arr =
     (if i < count then
        makeStarsLoop rnd w h count minDepth maxDepth (i + 1) (p + 8)
          (arr @ [makeStar rnd w h minDepth maxDepth p])
      else (arr, p))"
  by pat_completeness auto
termination
  by (relation "measure (\<lambda>(rnd, w, h, count, minDepth, maxDepth, i, p, arr). nat (count - i))") auto

declare makeStarsLoop.simps [simp del]

definition makeStars :: "rsource \<Rightarrow> scene \<Rightarrow> int \<Rightarrow> real \<Rightarrow> real \<Rightarrow> star list \<times> nat" where
  "makeStars rnd s count minDepth maxDepth =
     makeStarsLoop rnd (W s) (H s) count minDepth maxDepth 0 (rpos s) []"

text \<open>
  \<^verbatim>\<open>makeBandStars(count)\<close>: the \<^verbatim>\<open>while\<close> loop with its array, its counter
  \<open>tries\<close> and the position in the random source. The result is \<open>None\<close> when a call of
  \<^verbatim>\<open>gaussian()\<close> does not return.
\<close>

function makeBandStarsLoop ::
  "rsource \<Rightarrow> scene \<Rightarrow> int \<Rightarrow> star list \<Rightarrow> int \<Rightarrow> nat \<Rightarrow> (star list \<times> int \<times> nat) option" where
  "makeBandStarsLoop rnd s count arr tries p =
     (if int (length arr) < count \<and> tries < count * 30 then
        (let cx = W s / 2; cy = H s / 2;
             dir_x = cos (angle (milky s)); dir_y = sin (angle (milky s));
             norm_x = - dir_y; norm_y = dir_x;
             tries1 = tries + 1;
             t = rand (rnd p) (- hypot (W s) (H s)) (hypot (W s) (H s))
         in case gaussian rnd (p + 1) of
              None \<Rightarrow> None
            | Some (g, p1) \<Rightarrow>
                (let d = g * (width (milky s) * 0.35);
                     x = cx + dir_x * t + norm_x * d;
                     y = cy + dir_y * t + norm_y * d
                 in if x < - 50 \<or> x > W s + 50 \<or> y < - 50 \<or> y > H s + 50
                    then makeBandStarsLoop rnd s count arr tries1 p1
                    else
                      (let distFactor = exp (- (d * d) / (2 * (width (milky s) * 0.45)\<^sup>2));
                           dep = clamp (1 - distFactor * 0.9) 0.1 0.95;
                           r = rand (rnd p1) 0.6 2.2 * (0.8 + distFactor);
                           tn = rand (rnd (p1 + 1)) 200 250
                       in makeBandStarsLoop rnd s count
                            (arr @ [\<lparr>s_x = x, s_y = y, s_r = r,
                                      baseAlpha = clamp (0.3 + distFactor * 0.7) 0.25 1,
                                      twinkleSpeed = rand (rnd (p1 + 2)) 0.5 1.5,
                                      phase = rand (rnd (p1 + 3)) 0 TWO_PI,
                                      tone = tn, depth = dep\<rparr>])
                            tries1 (p1 + 4))))
      else Some (arr, tries, p))"
  by pat_completeness auto
termination
  by (relation "measure (\<lambda>(rnd, s, count, arr, tries, p). nat (count * 30 - tries))") auto

declare makeBandStarsLoop.simps [simp del]

definition makeBandStars :: "rsource \<Rightarrow> scene \<Rightarrow> int \<Rightarrow> (star list \<times> nat) option" where
  "makeBandStars rnd s count =
     (case makeBandStarsLoop rnd s count [] 0 (rpos s) of
        None \<Rightarrow> None
      | Some (arr, tries, p) \<Rightarrow> Some (arr, p))"

subsection \<open>The Milky Way texture\<close>

text \<open>
  The loop of \<^verbatim>\<open>makeMilkyTexture()\<close> over the cloud nodes: each node reads the source
  for \<open>t\<close>, calls \<^verbatim>\<open>gaussian()\<close>, reads the width factor, and calls
  \<^verbatim>\<open>gaussian()\<close> again for the size.
\<close>

function cloudLoop :: "rsource \<Rightarrow> scene \<Rightarrow> int \<Rightarrow> nat \<Rightarrow> blob list \<Rightarrow> (blob list \<times> nat) option" where
  "cloudLoop rnd s i p acc =
     (if i < CLOUD_NODES then
        (let cx = W s / 2; cy = H s / 2;
             dir_x = cos (angle (milky s)); dir_y = sin (angle (milky s));
             norm_x = - dir_y; norm_y = dir_x;
             t = rand (rnd p) (- hypot (W s) (H s)) (hypot (W s) (H s))
         in case gaussian rnd (p + 1) of
              None \<Rightarrow> None
            | Some (g, p1) \<Rightarrow>
                (let d = g * (width (milky s) * rand (rnd p1) 0.15 0.45);
                     x = cx + dir_x * t + norm_x * d;
                     y = cy + dir_y * t + norm_y * d
                 in case gaussian rnd (p1 + 1) of
                      None \<Rightarrow> None
                    | Some (g2, p2) \<Rightarrow>
                        (let size = \<bar>g2\<bar> * 18 + 6;
                             alpha = clamp (0.006 + exp (- (d * d) / (2 * (width (milky s) * 0.7)\<^sup>2))
                                                      * 0.028) 0.004 0.05
                         in cloudLoop rnd s (i + 1) p2
                              (acc @ [\<lparr>b_x = x, b_y = y, b_size = size, b_alpha = alpha\<rparr>]))))
      else Some (acc, p))"
  by pat_completeness auto
termination
  by (relation "measure (\<lambda>(rnd, s, i, p, acc). nat (CLOUD_NODES - i))") auto

declare cloudLoop.simps [simp del]

definition makeMilkyTexture :: "rsource \<Rightarrow> scene \<Rightarrow> (scene \<times> draw_op list) option" where
  "makeMilkyTexture rnd s =
     (let w = max 1 \<lfloor>W s * DPR s\<rfloor>;
          h = max 1 \<lfloor>H s * DPR s\<rfloor>
      in case cloudLoop rnd s 0 (rpos s) [] of
           None \<Rightarrow> None
         | Some (bs, p) \<Rightarrow>
             Some (s\<lparr>milky := (milky s)\<lparr>texture := Some \<lparr>tex_width = w, tex_height = h, blobs = bs\<rparr>,
                                        dirty := False\<rparr>,
                     rpos := p\<rparr>,
                   [CreateCanvas w h]))"

subsection \<open>Resize and seeding\<close>

text \<open>
  \<^verbatim>\<open>resize()\<close>, with the window's inner size as input. The size and transform of the
  visible canvas are not part of the model.
\<close>

definition resize :: "real \<Rightarrow> real \<Rightarrow> scene \<Rightarrow> scene" where
  "resize vw vh s =
     s\<lparr>W := vw, H := vh,
       milky := (milky s)\<lparr>width := max 120 (min vw vh * 0.45), dirty := True\<rparr>\<rparr>"

definition seedScene :: "rsource \<Rightarrow> scene \<Rightarrow> (scene \<times> draw_op list) option" where
  "seedScene rnd s =
     (let (st, p1) = makeStars rnd s STAR_COUNT 0.2 1.0;
          s1 = s\<lparr>stars := st, rpos := p1\<rparr>
      in case makeBandStars rnd s1 BAND_COUNT of
           None \<Rightarrow> None
         | Some (bs, p2) \<Rightarrow> makeMilkyTexture rnd (s1\<lparr>bandStars := bs, rpos := p2\<rparr>))"

subsection \<open>Pointer input\<close>

record touch =
  touch_clientX :: real
  touch_clientY :: real

text \<open>
  A mouse event has \<open>clientX\<close> and \<open>clientY\<close> and no \<open>touches\<close>; a touch event has
  \<open>touches\<close> (possibly empty) and no coordinates of its own.
\<close>

record pointer_event =
  clientX :: "real option"
  clientY :: "real option"
  touches :: "touch list option"

definition firstTouch :: "pointer_event \<Rightarrow> touch option" where
  "firstTouch e = (case touches e of None \<Rightarrow> None | Some [] \<Rightarrow> None | Some (t # ts) \<Rightarrow> Some t)"

definition onPointer :: "pointer_event \<Rightarrow> scene \<Rightarrow> scene" where
  "onPointer e s =
     (let x = (case clientX e of
                 Some v \<Rightarrow> v
               | None \<Rightarrow> (case firstTouch e of Some t \<Rightarrow> touch_clientX t | None \<Rightarrow> W s / 2));
          y = (case clientY e of
                 Some v \<Rightarrow> v
               | None \<Rightarrow> (case firstTouch e of Some t \<Rightarrow> touch_clientY t | None \<Rightarrow> H s / 2));
          nx = (x / W s) * 2 - 1;
          ny = (y / H s) * 2 - 1
      in s\<lparr>parallax := (parallax s)\<lparr>targetX := nx, targetY := ny\<rparr>\<rparr>)"

subsection \<open>The render loop\<close>

definition drawStar :: "scene \<Rightarrow> real \<Rightarrow> real \<Rightarrow> star \<Rightarrow> draw_op list" where
  "drawStar sc t parallaxScale s =
     (let pX = p_x (parallax sc) * (1 - depth s) * 14 * parallaxScale;
          pY = p_y (parallax sc) * (1 - depth s) * 10 * parallaxScale;
          tw = (if chkTwinkle sc then 0.5 + 0.5 * sin (t * twinkleSpeed s + phase s) else 1.0);
          alpha = clamp (baseAlpha s * tw) 0.05 1
      in StarDisc (s_x s + pX) (s_y s + pY) (s_r s) alpha
           # (if s_r s > 1.6 \<and> alpha > 0.6
              then [StarCross (s_x s + pX) (s_y s + pY) (s_r s) (alpha * 0.15)]
              else []))"

text \<open>\<^verbatim>\<open>drawStars(list, parallaxScale)\<close>; \<open>now\<close> is what \<^verbatim>\<open>performance.now()\<close> returns in it.\<close>

definition drawStars :: "scene \<Rightarrow> real \<Rightarrow> star list \<Rightarrow> real \<Rightarrow> draw_op list" where
  "drawStars sc now lst parallaxScale =
     (let t = now / 1000 in concat (map (drawStar sc t parallaxScale) lst))"

definition smoothParallax :: "parallax \<Rightarrow> parallax" where
  "smoothParallax p =
     p\<lparr>p_x := p_x p + (targetX p - p_x p) * 0.06,
       p_y := p_y p + (targetY p - p_y p) * 0.06\<rparr>"

text \<open>The band block of \<^verbatim>\<open>frame\<close>: \<^verbatim>\<open>if (chkMilky.checked) { ... }\<close>.\<close>

definition drawMilky :: "rsource \<Rightarrow> scene \<Rightarrow> (scene \<times> draw_op list) option" where
  "drawMilky rnd s =
     (if chkMilky s then
        (case (if dirty (milky s) \<or> texture (milky s) = None then makeMilkyTexture rnd s
               else Some (s, [])) of
           None \<Rightarrow> None
         | Some (s1, ops) \<Rightarrow>
             (case texture (milky s1) of
                None \<Rightarrow> Some (s1, ops)
              | Some tex \<Rightarrow>
                  Some (s1, ops @ [DrawImage tex 0.9 (real_of_int (tex_width tex) / DPR s1)
                                     (real_of_int (tex_height tex) / DPR s1)])))
      else Some (s, []))"

text \<open>
  \<^verbatim>\<open>frame(now)\<close>. The three further inputs are the values of \<^verbatim>\<open>performance.now()\<close>
  in the two calls of \<^verbatim>\<open>drawStars\<close> and in \<^verbatim>\<open>handleMeteors\<close>.
\<close>

definition frame ::
  "rsource \<Rightarrow> real \<Rightarrow> real \<Rightarrow> real \<Rightarrow> real \<Rightarrow> scene \<Rightarrow> (scene \<times> draw_op list) option" where
  "frame rnd now tStars tBand tMeteor s =
     (let dt = now - lastT s;
          s1 = s\<lparr>lastT := now, parallax := smoothParallax (parallax s)\<rparr>
      in case drawMilky rnd s1 of
           None \<Rightarrow> None
         | Some (s2, milkyOps) \<Rightarrow>
             (let starOps = drawStars s2 tStars (stars s2) 0.8 @ drawStars s2 tBand (bandStars s2) 1.2;
                  (s3, meteorOps) = handleMeteors rnd tMeteor dt s2
              in Some (s3, ClearRect (W s) (H s) # milkyOps @ starOps @ meteorOps)))"

subsection \<open>Event handlers and boot\<close>

definition onResize :: "rsource \<Rightarrow> real \<Rightarrow> real \<Rightarrow> scene \<Rightarrow> (scene \<times> draw_op list) option" where
  "onResize rnd vw vh s = seedScene rnd (resize vw vh s)"

definition onClick :: "rsource \<Rightarrow> scene \<Rightarrow> scene option" where
  "onClick rnd s =
     (let s1 = s\<lparr>milky := (milky s)\<lparr>angle := angle (milky s) + degToRad (rand (rnd (rpos s)) (- 8) 8),
                                    dirty := True\<rparr>,
                rpos := rpos s + 1\<rparr>
      in case makeBandStars rnd s1 BAND_COUNT of
           None \<Rightarrow> None
         | Some (bs, p) \<Rightarrow> Some (s1\<lparr>bandStars := bs, rpos := p\<rparr>))"

text \<open>
  A change of a checkbox: the browser sets the box, then runs the handler. The handlers of
  the band and twinkle boxes are empty.
\<close>

definition onChangeMilky :: "bool \<Rightarrow> scene \<Rightarrow> scene" where
  "onChangeMilky b s = s\<lparr>chkMilky := b\<rparr>"

definition onChangeTwinkle :: "bool \<Rightarrow> scene \<Rightarrow> scene" where
  "onChangeTwinkle b s = s\<lparr>chkTwinkle := b\<rparr>"

definition onChangeMeteors :: "bool \<Rightarrow> scene \<Rightarrow> scene" where
  "onChangeMeteors b s =
     (let s1 = s\<lparr>chkMeteors := b\<rparr>
      in if \<not> chkMeteors s1 then s1\<lparr>meteor := None\<rparr> else s1)"

text \<open>
  The module-level initialisation, in the order of the script. Inputs: the device pixel
  ratio (\<open>None\<close> when the browser has none), the two readings of the clock, and the three
  boxes as the page sets them.
\<close>

definition initScene :: "rsource \<Rightarrow> real option \<Rightarrow> real \<Rightarrow> real \<Rightarrow> bool \<Rightarrow> bool \<Rightarrow> bool \<Rightarrow> scene" where
  "initScene rnd dpr t0 t1 tw me mi =
     \<lparr>DPR = min (case dpr of None \<Rightarrow> 1 | Some v \<Rightarrow> if v = 0 then 1 else v) 2,
      W = 0, H = 0, stars = [], bandStars = [], meteor = None,
      nextMeteorAt = t0 + rand (rnd 0) METEOR_MIN_GAP METEOR_MAX_GAP,
      parallax = \<lparr>p_x = 0, p_y = 0, targetX = 0, targetY = 0\<rparr>,
      milky = \<lparr>angle = degToRad (rand (rnd 1) 18 42 * (if rnd 2 < 0.5 then 1 else - 1)),
               width = 0, texture = None, dirty = True\<rparr>,
      lastT = t1, chkTwinkle = tw, chkMeteors = me, chkMilky = mi, rpos = 3\<rparr>"

definition boot ::
  "rsource \<Rightarrow> real option \<Rightarrow> real \<Rightarrow> real \<Rightarrow> bool \<Rightarrow> bool \<Rightarrow> bool \<Rightarrow> real \<Rightarrow> real \<Rightarrow> scene option" where
  "boot rnd dpr t0 t1 tw me mi vw vh =
     map_option fst (seedScene rnd (resize vw vh (initScene rnd dpr t0 t1 tw me mi)))"

text \<open>The opacities of the star discs among painted operations, in order.\<close>

fun discAlphas :: "draw_op list \<Rightarrow> real list" where
  "discAlphas [] = []"
| "discAlphas (StarDisc x y r a # ops) = a # discAlphas ops"
| "discAlphas (op # ops) = discAlphas ops"

subsection \<open>Runs of the program\<close>

datatype event =
    Frame real real real real
  | Resize real real
  | Click
  | Pointer pointer_event
  | ChangeTwinkle bool
  | ChangeMeteors bool
  | ChangeMilky bool

text \<open>One callback: the scene after it and what it painted.\<close>

fun fire :: "rsource \<Rightarrow> event \<Rightarrow> scene \<Rightarrow> (scene \<times> draw_op list) option" where
  "fire rnd (Frame now tStars tBand tMeteor) s = frame rnd now tStars tBand tMeteor s"
| "fire rnd (Resize vw vh) s = onResize rnd vw vh s"
| "fire rnd Click s = map_option (\<lambda>s1. (s1, [])) (onClick rnd s)"
| "fire rnd (Pointer e) s = Some (onPointer e s, [])"
| "fire rnd (ChangeTwinkle b) s = Some (onChangeTwinkle b s, [])"
| "fire rnd (ChangeMeteors b) s = Some (onChangeMeteors b s, [])"
| "fire rnd (ChangeMilky b) s = Some (onChangeMilky b s, [])"

fun run :: "rsource \<Rightarrow> event list \<Rightarrow> scene \<Rightarrow> (scene \<times> draw_op list) option" where
  "run rnd [] s = Some (s, [])"
| "run rnd (ev # evs) s =
     (case fire rnd ev s of
        None \<Rightarrow> None
      | Some (s1, ops1) \<Rightarrow>
          (case run rnd evs s1 of
             None \<Rightarrow> None
           | Some (s2, ops2) \<Rightarrow> Some (s2, ops1 @ ops2)))"

text \<open>
  The events that change the geometry of the band: a resize and the click that nudges
  the angle. The operations that concern the band texture: building it and drawing it.
\<close>

fun changesGeometry :: "event \<Rightarrow> bool" where
  "changesGeometry (Resize vw vh) = True"
| "changesGeometry Click = True"
| "changesGeometry ev = False"

fun bandOp :: "draw_op \<Rightarrow> bool" where
  "bandOp (CreateCanvas w h) = True"
| "bandOp (DrawImage tex a w h) = True"
| "bandOp op = False"

text \<open>The scenes a run can be in between two callbacks.\<close>

inductive reachable :: "rsource \<Rightarrow> scene \<Rightarrow> bool" for rnd :: rsource where
  reach_boot: "boot rnd dpr t0 t1 tw me mi vw vh = Some s \<Longrightarrow> reachable rnd s"
| reach_fire: "reachable rnd s \<Longrightarrow> fire rnd ev s = Some (s', ops) \<Longrightarrow> reachable rnd s'"

text \<open>
  What holds of the meteor between two callbacks: its trail has at most 120 samples and
  its age has not passed its lifespan.
\<close>

definition meteorOk :: "scene \<Rightarrow> bool" where
  "meteorOk s \<longleftrightarrow> (case meteor s of None \<Rightarrow> True | Some m \<Rightarrow> length (trail m) \<le> 120 \<and> age m \<le> life m)"

text \<open>
  \<^verbatim>\<open>Math.random()\<close> does not return 0 for ever: from every position on, the source has
  a value that is not 0. The loops of \<^verbatim>\<open>gaussian()\<close> end on such a source.
\<close>

definition fairSource :: "rsource \<Rightarrow> bool" where
  "fairSource rnd \<longleftrightarrow> (\<forall>n. \<exists>m\<ge>n. rnd m \<noteq> 0)"

subsection \<open>Example inputs\<close>

text \<open>
  A scene in the middle of a run: an 800 by 600 viewport and a meteor that has just been
  spawned at time 10000, with the next spawn due at 13800.
\<close>

definition sceneA :: scene where
  "sceneA =
     \<lparr>DPR = 1, W = 800, H = 600, stars = [], bandStars = [],
      meteor = Some \<lparr>m_x = 100, m_y = 100, vx = 500, vy = 200, life = 500, age = 0, trail = []\<rparr>,
      nextMeteorAt = 13800,
      parallax = \<lparr>p_x = 0, p_y = 0, targetX = 0, targetY = 0\<rparr>,
      milky = \<lparr>angle = 0, width = 270, texture = None, dirty = True\<rparr>,
      lastT = 10000, chkTwinkle = True, chkMeteors = True, chkMilky = False, rpos = 0\<rparr>"

text \<open>
  A mouse move while a button is held and the pointer has left the window on the left:
  browsers keep reporting such moves, with coordinates outside the viewport.
\<close>

definition outsideMove :: pointer_event where
  "outsideMove = \<lparr>clientX = Some (- 40), clientY = Some 300, touches = None\<rparr>"

text \<open>A star whose twinkle factor is 0 at time 0: the sine of its phase is -1.\<close>

definition dimStar :: star where
  "dimStar = \<lparr>s_x = 10, s_y = 20, s_r = 1, baseAlpha = 0.8, twinkleSpeed = 1, phase = 3 * pi / 2,
      tone = 220, depth = 0.5\<rparr>"

text \<open>\<open>sceneA\<close> with the pointer at the top right corner and the offset still on its way.\<close>

definition sceneP :: scene where
  "sceneP = sceneA\<lparr>parallax := \<lparr>p_x = 0, p_y = 1, targetX = 1, targetY = - 1\<rparr>\<rparr>"

text \<open>
  Three random sources for \<^verbatim>\<open>makeStars\<close> with two stars (positions 0 to 7 and 8 to
  15; the depth draws are at 0 and 8, the jitter draws at 1 and 9). All give the first star
  the depth draw 0. \<open>srcC\<close> gives the second star the depth draw 1/4 and the larger jitter
  draw (0 and 3/4); \<open>srcW\<close> gives the second star the depth draw 1/4 and the smaller jitter
  draw (1/2 and 0); \<open>srcN\<close> gives the second star the depth draw 1/2 and both stars the
  jitter draw 0.
\<close>

definition srcC :: rsource where
  "srcC n = (if n = 8 then 1 / 4 else if n = 9 then 3 / 4 else 0)"

definition srcW :: rsource where
  "srcW n = (if n = 8 then 1 / 4 else if n = 1 then 1 / 2 else 0)"

definition srcN :: rsource where
  "srcN n = (if n = 8 then 1 / 2 else 0)"

text \<open>
  Two random sources for \<^verbatim>\<open>makeBandStars\<close> at \<open>sceneA\<close> (band angle 0). On \<open>srcB\<close>
  the first sample is the centre of the viewport and is accepted. On \<open>srcE\<close> every sample
  lies 500 pixels to the right of the centre, outside the margin, and is rejected.
\<close>

definition srcB :: rsource where
  "srcB n = (if n = 2 then 1 / 4 else 1 / 2)"

definition srcE :: rsource where
  "srcE n = 3 / 4"

text \<open>\<open>sceneA\<close> with the band box checked and a valid cached texture.\<close>

definition texT :: texture where
  "texT = \<lparr>tex_width = 800, tex_height = 600, blobs = []\<rparr>"

definition sceneT :: scene where
  "sceneT = sceneA\<lparr>chkMilky := True,
                   milky := \<lparr>angle = 0, width = 270, texture = Some texT, dirty = False\<rparr>\<rparr>"

text \<open>
  A run: the page boots at time 0 with an 800 by 600 window, the meteors box checked and
  the band box cleared, on the source that always returns 1/2; the first spawn is due at
  6650. The first frame comes at time 7000, which is also the time \<^verbatim>\<open>last\<close> was
  initialised at, so that \<open>dt = 0\<close>: it spawns a meteor.
\<close>

definition srcH :: rsource where
  "srcH n = 1 / 2"

definition sceneBoot :: scene where
  "sceneBoot = the (boot srcH None 0 7000 True True False 800 600)"

definition sceneFlight :: scene where
  "sceneFlight = fst (the (frame srcH 7000 7000 7000 7000 sceneBoot))"

section \<open>Properties\<close>

subsection \<open>The loops of the Gaussian sampler end on a fair source\<close>

lemma drawNonzero_total:
  "rnd m \<noteq> 0 \<Longrightarrow> p \<le> m \<Longrightarrow> \<exists>u q. drawNonzero rnd 0 p = Some (u, q) \<and> u \<noteq> 0 \<and> p < q"
proof (induction "m - p" arbitrary: p)
  case 0
  then have "p = m" by simp
  with 0 show ?case
    by (subst drawNonzero.simps, simp, subst drawNonzero.simps, simp)
next
  case (Suc k)
  show ?case
  proof (cases "rnd p = 0")
    case True
    from Suc have "k = m - Suc p" "Suc p \<le> m" by auto
    from Suc.hyps(1)[OF this(1) Suc.prems(1) this(2)]
    obtain u q where "drawNonzero rnd 0 (Suc p) = Some (u, q)" "u \<noteq> 0" "Suc p < q" by blast
    then show ?thesis using True
      by (subst drawNonzero.simps) (auto)
  next
    case False
    then show ?thesis
      by (subst drawNonzero.simps, simp, subst drawNonzero.simps, simp)
  qed
qed

lemma gaussian_total:
  assumes "fairSource rnd"
  shows "\<exists>g q. gaussian rnd p = Some (g, q)"
proof -
  from assms obtain m where "m \<ge> p" "rnd m \<noteq> 0" unfolding fairSource_def by blast
  from drawNonzero_total[of rnd m p, OF this(2) this(1)]
  obtain u p1 where 1: "drawNonzero rnd 0 p = Some (u, p1)" by blast
  from assms obtain m' where "m' \<ge> p1" "rnd m' \<noteq> 0" unfolding fairSource_def by blast
  from drawNonzero_total[of rnd m' p1, OF this(2) this(1)]
  obtain v p2 where 2: "drawNonzero rnd 0 p1 = Some (v, p2)" by blast
  show ?thesis using 1 2 by (simp add: gaussian_def)
qed

subsection \<open>One step of the meteor\<close>

lemma spawnPhase_geom [simp]:
  "W (spawnPhase rnd now s) = W s" "H (spawnPhase rnd now s) = H s"
  "chkMeteors (spawnPhase rnd now s) = chkMeteors s"
  by (simp_all add: spawnPhase_def spawnMeteor_def Let_def)

lemma updatePhase_meteor:
  "meteor (fst (updatePhase rnd dt s)) =
     (case meteor s of None \<Rightarrow> None
      | Some m \<Rightarrow> if cullDue s (advanceMeteor dt m) then None else Some (advanceMeteor dt m))"
  by (simp add: updatePhase_def Let_def cullDue_def split: option.splits)

lemma updatePhase_keeps [simp]:
  "W (fst (updatePhase rnd dt s)) = W s" "H (fst (updatePhase rnd dt s)) = H s"
  "nextMeteorAt (fst (updatePhase rnd dt s)) = nextMeteorAt s"
  "chkMeteors (fst (updatePhase rnd dt s)) = chkMeteors s"
  by (simp_all add: updatePhase_def Let_def split: option.splits)

text \<open>
  C4. After \<^verbatim>\<open>handleMeteors\<close>, a meteor whose age at the end of the update exceeds its
  lifespan, or whose position is more than 200 pixels outside the viewport on any side, is
  gone: if the meteor the update works on (the one present after the spawn test) is due
  for the cleanup once advanced, the scene has no meteor; so a meteor that is still there
  is within its lifespan and within the margin.
\<close>

theorem meteor_absent_after_cull:
  "(\<forall>m. meteor (spawnPhase rnd now s) = Some m \<and> cullDue s (advanceMeteor dt m)
        \<longrightarrow> meteor (fst (handleMeteors rnd now dt s)) = None) \<and>
   (\<forall>m'. meteor (fst (handleMeteors rnd now dt s)) = Some m'
        \<longrightarrow> age m' \<le> life m' \<and> - 200 \<le> m_x m' \<and> m_x m' \<le> W s + 200
            \<and> - 200 \<le> m_y m' \<and> m_y m' \<le> H s + 200)"
  by (auto simp: handleMeteors_def updatePhase_meteor cullDue_def split: option.splits if_splits)

text \<open>
  The theorem at \<open>sceneA\<close>, whose meteor has lifespan 500: after a step of 600 ms the age
  is 600 and the meteor is gone; after a step of exactly 500 ms the age equals the lifespan
  and the meteor stays.
\<close>

theorem meteor_absent_after_cull_witness:
  "meteor (spawnPhase (\<lambda>n. 0) 10600 sceneA) = meteor sceneA \<and>
   age (advanceMeteor 600 (the (meteor sceneA))) = 600 \<and>
   cullDue sceneA (advanceMeteor 600 (the (meteor sceneA))) \<and>
   meteor (fst (handleMeteors (\<lambda>n. 0) 10600 600 sceneA)) = None \<and>
   \<not> cullDue sceneA (advanceMeteor 500 (the (meteor sceneA))) \<and>
   meteor (fst (handleMeteors (\<lambda>n. 0) 10500 500 sceneA)) = Some (advanceMeteor 500 (the (meteor sceneA)))"
  using meteor_absent_after_cull [of "\<lambda>n. 0" 10600 sceneA 600]
  by (simp add: handleMeteors_def spawnPhase_def spawnDue_def updatePhase_meteor sceneA_def
      advanceMeteor_def cullDue_def Let_def)

subsection \<open>The next-spawn timestamp\<close>

lemma handleMeteors_next:
  "nextMeteorAt (fst (handleMeteors rnd now dt s)) =
     (if spawnDue now s then now + rand (rnd (rpos s + 6)) METEOR_MIN_GAP METEOR_MAX_GAP
      else nextMeteorAt s)"
  by (simp add: handleMeteors_def spawnPhase_def spawnMeteor_def Let_def)

lemma rand_range:
  assumes "0 \<le> u" "u \<le> 1" "lo \<le> hi"
  shows "lo \<le> rand u lo hi \<and> rand u lo hi \<le> hi"
proof -
  from assms have "0 \<le> u * (hi - lo)" by simp
  moreover from assms have "u * (hi - lo) \<le> 1 * (hi - lo)" by (intro mult_right_mono) auto
  ultimately show ?thesis by (simp add: rand_def)
qed

text \<open>
  C5, as the script has it. The claim says the timestamp is also recomputed when a meteor
  disappears; the script assigns \<^verbatim>\<open>nextMeteorAt\<close> only next to \<^verbatim>\<open>spawnMeteor()\<close>.
  At \<open>sceneA\<close> (spawn at 10000, next spawn due at 13800) the meteor expires in the frame
  at 10600 and the timestamp is still 13800, which is less than 10600 plus the smallest gap.
\<close>

theorem next_spawn_kept_on_expiry_counterexample:
  "meteor sceneA \<noteq> None \<and>
   meteor (fst (handleMeteors (\<lambda>n. 0) 10600 600 sceneA)) = None \<and>
   nextMeteorAt (fst (handleMeteors (\<lambda>n. 0) 10600 600 sceneA)) = 13800 \<and>
   (13800 :: real) < 10600 + METEOR_MIN_GAP"
  by (simp add: handleMeteors_def spawnPhase_def spawnDue_def updatePhase_def sceneA_def
      advanceMeteor_def cullDue_def Let_def METEOR_MIN_GAP_def pushTrail_def)

text \<open>
  C5 amended. In a call of \<^verbatim>\<open>handleMeteors\<close> that spawns a meteor the timestamp becomes
  the current time plus \<^verbatim>\<open>rand(METEOR_MIN_GAP, METEOR_MAX_GAP)\<close>, which lies between
  the two gaps for a draw in the unit interval. In a call that does not spawn (also one in
  which the meteor expires or is culled) and in the handler of the meteors box the
  timestamp is unchanged.
\<close>

theorem next_spawn_set_on_spawn_only:
  "(spawnDue now s \<longrightarrow>
      nextMeteorAt (fst (handleMeteors rnd now dt s))
        = now + rand (rnd (rpos s + 6)) METEOR_MIN_GAP METEOR_MAX_GAP) \<and>
   (spawnDue now s \<and> 0 \<le> rnd (rpos s + 6) \<and> rnd (rpos s + 6) \<le> 1 \<longrightarrow>
      now + METEOR_MIN_GAP \<le> nextMeteorAt (fst (handleMeteors rnd now dt s)) \<and>
      nextMeteorAt (fst (handleMeteors rnd now dt s)) \<le> now + METEOR_MAX_GAP) \<and>
   (\<not> spawnDue now s \<longrightarrow>
      nextMeteorAt (fst (handleMeteors rnd now dt s)) = nextMeteorAt s) \<and>
   nextMeteorAt (onChangeMeteors b s) = nextMeteorAt s"
  using rand_range[of "rnd (rpos s + 6)" METEOR_MIN_GAP METEOR_MAX_GAP]
  by (auto simp: handleMeteors_next onChangeMeteors_def Let_def METEOR_MIN_GAP_def METEOR_MAX_GAP_def)

text \<open>
  The theorem at \<open>sceneA\<close>: without a meteor and at time 14000 a spawn is due and the
  timestamp becomes 14000 + 6650; with its meteor, in the frame at 10600 where the meteor
  expires, and when the box is cleared, it stays 13800.
\<close>

theorem next_spawn_set_on_spawn_only_witness:
  "spawnDue 14000 (sceneA\<lparr>meteor := None\<rparr>) \<and>
   nextMeteorAt (fst (handleMeteors (\<lambda>n. 1 / 2) 14000 16 (sceneA\<lparr>meteor := None\<rparr>))) = 20650 \<and>
   \<not> spawnDue 10600 sceneA \<and>
   nextMeteorAt (fst (handleMeteors (\<lambda>n. 1 / 2) 10600 600 sceneA)) = 13800 \<and>
   nextMeteorAt (onChangeMeteors False sceneA) = 13800"
  using next_spawn_set_on_spawn_only [of 14000 "sceneA\<lparr>meteor := None\<rparr>" "\<lambda>n. 1 / 2" 16 False]
        next_spawn_set_on_spawn_only [of 10600 sceneA "\<lambda>n. 1 / 2" 600 False]
  by (simp add: spawnDue_def sceneA_def rand_def METEOR_MIN_GAP_def METEOR_MAX_GAP_def
      onChangeMeteors_def)

subsection \<open>Pointer input\<close>

lemma onPointer_inside:
  assumes "0 < W s" "0 \<le> x" "x \<le> W s" "clientX e = Some x"
      and "0 < H s" "0 \<le> y" "y \<le> H s" "clientY e = Some y"
  shows "- 1 \<le> targetX (parallax (onPointer e s)) \<and> targetX (parallax (onPointer e s)) \<le> 1 \<and>
         - 1 \<le> targetY (parallax (onPointer e s)) \<and> targetY (parallax (onPointer e s)) \<le> 1"
  using assms by (auto simp: onPointer_def Let_def field_simps)

lemma onPointer_default:
  assumes "0 < W s" "0 < H s" "clientX e = None" "clientY e = None" "firstTouch e = None"
  shows "targetX (parallax (onPointer e s)) = 0 \<and> targetY (parallax (onPointer e s)) = 0"
  using assms by (auto simp: onPointer_def Let_def)

text \<open>
  C7. The handler normalises the coordinates and does not clamp them: for the move
  \<open>outsideMove\<close> (\<open>clientX = -40\<close>) in the 800 pixel wide \<open>sceneA\<close> the target offset is
  -1.1, outside the interval the claim and the comment in the script give.
\<close>

theorem onPointer_outside_viewport:
  "targetX (parallax (onPointer outsideMove sceneA)) = - 11 / 10 \<and>
   \<not> (- 1 \<le> targetX (parallax (onPointer outsideMove sceneA)))"
  by (simp add: onPointer_def outsideMove_def sceneA_def Let_def)

subsection \<open>Star opacity\<close>

lemma discAlphas_append [simp]: "discAlphas (xs @ ys) = discAlphas xs @ discAlphas ys"
  by (induction xs rule: discAlphas.induct) auto

lemma discAlphas_drawStar:
  "discAlphas (drawStar sc t k s) =
     [clamp (baseAlpha s * (if chkTwinkle sc then 0.5 + 0.5 * sin (t * twinkleSpeed s + phase s)
                            else 1.0)) 0.05 1]"
  by (simp add: drawStar_def Let_def)

lemma clamp_range: "a \<le> b \<Longrightarrow> a \<le> clamp v a b \<and> clamp v a b \<le> b"
  by (simp add: clamp_def)

lemma discAlphas_drawStars:
  "discAlphas (drawStars sc now lst k) =
     map (\<lambda>s. clamp (baseAlpha s * (if chkTwinkle sc
                                     then 0.5 + 0.5 * sin (now / 1000 * twinkleSpeed s + phase s)
                                     else 1.0)) 0.05 1) lst"
  by (induction lst) (simp_all add: drawStars_def Let_def discAlphas_drawStar)

lemma sin_3pi_2: "sin (3 * pi / 2) = - 1"
  using sin_3over2_pi by (simp add: field_simps)

text \<open>
  C10. \<^verbatim>\<open>drawStars\<close> paints one disc for every star of the list, and the opacity of
  every disc lies between 0.05 and 1, whatever the time, the star and the twinkle box.
\<close>

theorem star_opacity_clamped:
  "length (discAlphas (drawStars sc now lst k)) = length lst \<and>
   (\<forall>a \<in> set (discAlphas (drawStars sc now lst k)). 0.05 \<le> a \<and> a \<le> 1)"
  using clamp_range[of "0.05" 1]
  by (auto simp: discAlphas_drawStars)

text \<open>
  The theorem at \<open>dimStar\<close> and time 0, with twinkling on: the twinkle factor is 0, and
  the disc is painted with opacity 0.05.
\<close>

theorem star_opacity_clamped_witness:
  "discAlphas (drawStars sceneA 0 [dimStar] 0.8) = [0.05] \<and>
   0.05 \<in> set (discAlphas (drawStars sceneA 0 [dimStar] 0.8)) \<and>
   (0.05::real) \<le> 0.05 \<and> (0.05::real) \<le> 1"
  using star_opacity_clamped [of sceneA 0 "[dimStar]" "0.8"]
  by (simp add: discAlphas_drawStars sceneA_def dimStar_def clamp_def sin_3pi_2)

subsection \<open>What each function leaves unchanged\<close>

lemma makeMilkyTexture_shape:
  assumes "makeMilkyTexture rnd s = Some (s', ops)"
  shows "s' = s\<lparr>milky := milky s', rpos := rpos s'\<rparr>"
  using assms by (auto simp: makeMilkyTexture_def Let_def split: option.splits)

lemma drawMilky_shape:
  assumes "drawMilky rnd s = Some (s', ops)"
  shows "s' = s\<lparr>milky := milky s', rpos := rpos s'\<rparr>"
proof (cases "chkMilky s \<and> (dirty (milky s) \<or> texture (milky s) = None)")
  case True
  with assms obtain s1 ops1 where "makeMilkyTexture rnd s = Some (s1, ops1)" "s' = s1"
    by (auto simp: drawMilky_def split: option.splits if_splits)
  with makeMilkyTexture_shape[of rnd s s1 ops1] show ?thesis by blast
next
  case False
  with assms have "s' = s"
    by (auto simp: drawMilky_def split: option.splits if_splits)
  then show ?thesis by simp
qed

lemma seedScene_shape:
  assumes "seedScene rnd s = Some (s', ops)"
  shows "s' = s\<lparr>stars := stars s', bandStars := bandStars s', milky := milky s', rpos := rpos s'\<rparr>"
proof -
  obtain st p1 where a: "makeStars rnd s STAR_COUNT 0.2 1.0 = (st, p1)"
    by (cases "makeStars rnd s STAR_COUNT 0.2 1.0")
  with assms obtain bs p2 where
    b: "makeMilkyTexture rnd (s\<lparr>stars := st, rpos := p1, bandStars := bs, rpos := p2\<rparr>) = Some (s', ops)"
    by (auto simp: seedScene_def Let_def split: option.splits)
  note e = makeMilkyTexture_shape[OF b]
  have "stars s' = st" by (subst e) simp
  moreover have "bandStars s' = bs" by (subst e) simp
  ultimately show ?thesis by (subst e) simp
qed

lemma onClick_shape:
  assumes "onClick rnd s = Some s'"
  shows "s' = s\<lparr>bandStars := bandStars s', milky := milky s', rpos := rpos s'\<rparr>"
  using assms by (auto simp: onClick_def Let_def split: option.splits)

lemma spawnPhase_shape:
  "spawnPhase rnd now s =
     s\<lparr>meteor := meteor (spawnPhase rnd now s), nextMeteorAt := nextMeteorAt (spawnPhase rnd now s),
       rpos := rpos (spawnPhase rnd now s)\<rparr>"
  by (simp add: spawnPhase_def spawnMeteor_def Let_def)

lemma updatePhase_shape:
  "fst (updatePhase rnd dt s) =
     s\<lparr>meteor := meteor (fst (updatePhase rnd dt s)), rpos := rpos (fst (updatePhase rnd dt s))\<rparr>"
  by (simp add: updatePhase_def Let_def split: option.splits)

lemma handleMeteors_shape:
  "fst (handleMeteors rnd now dt s) =
     s\<lparr>meteor := meteor (fst (handleMeteors rnd now dt s)),
       nextMeteorAt := nextMeteorAt (fst (handleMeteors rnd now dt s)),
       rpos := rpos (fst (handleMeteors rnd now dt s))\<rparr>"
  unfolding handleMeteors_def
  by (subst updatePhase_shape, subst spawnPhase_shape) simp

lemma frame_shape:
  assumes "frame rnd now a b c s = Some (s', ops)"
  shows "\<exists>s2 mops. drawMilky rnd (s\<lparr>lastT := now, parallax := smoothParallax (parallax s)\<rparr>)
                       = Some (s2, mops)
           \<and> s' = fst (handleMeteors rnd c (now - lastT s) s2)
           \<and> ops = ClearRect (W s) (H s) # mops
                     @ (drawStars s2 a (stars s2) 0.8 @ drawStars s2 b (bandStars s2) 1.2)
                     @ snd (handleMeteors rnd c (now - lastT s) s2)"
  using assms by (auto simp: frame_def Let_def split: option.splits prod.splits)

subsection \<open>Parallax easing\<close>

lemma smooth_range:
  fixes x t :: real
  assumes "- 1 \<le> x" "x \<le> 1" "- 1 \<le> t" "t \<le> 1"
  shows "- 1 \<le> x + (t - x) * 0.06 \<and> x + (t - x) * 0.06 \<le> 1"
proof -
  have e: "x + (t - x) * 0.06 = (47 * x + 3 * t) / 50" by (simp add: field_simps)
  from assms have "- 50 \<le> 47 * x + 3 * t" "47 * x + 3 * t \<le> 50" by linarith+
  then show ?thesis unfolding e by simp
qed

lemma frame_parallax:
  assumes "frame rnd now a b c s = Some (s', ops)"
  shows "parallax s' = smoothParallax (parallax s)"
proof -
  from frame_shape[OF assms] obtain s2 mops where
    d: "drawMilky rnd (s\<lparr>lastT := now, parallax := smoothParallax (parallax s)\<rparr>) = Some (s2, mops)"
    and e: "s' = fst (handleMeteors rnd c (now - lastT s) s2)" by blast
  have "parallax s' = parallax s2" by (subst e, subst handleMeteors_shape) simp
  also have "\<dots> = smoothParallax (parallax s)" by (subst drawMilky_shape[OF d]) simp
  finally show ?thesis .
qed

lemma smoothParallax_inRange:
  assumes "- 1 \<le> p_x p \<and> p_x p \<le> 1 \<and> - 1 \<le> p_y p \<and> p_y p \<le> 1
                 \<and> - 1 \<le> targetX p \<and> targetX p \<le> 1 \<and> - 1 \<le> targetY p \<and> targetY p \<le> 1"
  shows "- 1 \<le> p_x (smoothParallax p) \<and> p_x (smoothParallax p) \<le> 1 \<and> - 1 \<le> p_y (smoothParallax p) \<and> p_y (smoothParallax p) \<le> 1
                 \<and> targetX (smoothParallax p) = targetX p \<and> targetY (smoothParallax p) = targetY p"
  using assms smooth_range[of "p_x p" "targetX p"] smooth_range[of "p_y p" "targetY p"]
  by (simp add: smoothParallax_def)

lemma smoothParallax_iter:
  assumes "- 1 \<le> p_x p \<and> p_x p \<le> 1 \<and> - 1 \<le> p_y p \<and> p_y p \<le> 1
                 \<and> - 1 \<le> targetX p \<and> targetX p \<le> 1 \<and> - 1 \<le> targetY p \<and> targetY p \<le> 1"
  shows "- 1 \<le> p_x ((smoothParallax ^^ n) p) \<and> p_x ((smoothParallax ^^ n) p) \<le> 1 \<and> - 1 \<le> p_y ((smoothParallax ^^ n) p) \<and> p_y ((smoothParallax ^^ n) p) \<le> 1
                 \<and> targetX ((smoothParallax ^^ n) p) = targetX p \<and> targetY ((smoothParallax ^^ n) p) = targetY p"
proof (induction n)
  case 0
  with assms show ?case by simp
next
  case (Suc n)
  from smoothParallax_inRange[of "(smoothParallax ^^ n) p"] Suc assms show ?case by simp
qed

lemma drawMilky_off: "\<not> chkMilky s \<Longrightarrow> drawMilky rnd s = Some (s, [])"
  by (simp add: drawMilky_def)

lemma frame_total_off:
  assumes "\<not> chkMilky s"
  shows "\<exists>s' ops. frame rnd now a b c s = Some (s', ops)"
  using assms by (simp add: frame_def Let_def drawMilky_off split: prod.splits)

text \<open>
  C9. A frame replaces the current offset by \<open>smoothParallax\<close> of it. If the current and
  the target offsets lie in [-1, 1] on both axes, then after any number of easing steps
  the current offsets still lie in [-1, 1].
\<close>

theorem parallax_stays_in_range:
  assumes "- 1 \<le> targetX (parallax s) \<and> targetX (parallax s) \<le> 1"
      and "- 1 \<le> targetY (parallax s) \<and> targetY (parallax s) \<le> 1"
      and "- 1 \<le> p_x (parallax s) \<and> p_x (parallax s) \<le> 1"
      and "- 1 \<le> p_y (parallax s) \<and> p_y (parallax s) \<le> 1"
  shows "(\<forall>s' ops. frame rnd now a b c s = Some (s', ops) \<longrightarrow>
            parallax s' = smoothParallax (parallax s)) \<and>
         - 1 \<le> p_x ((smoothParallax ^^ n) (parallax s)) \<and> p_x ((smoothParallax ^^ n) (parallax s)) \<le> 1 \<and>
         - 1 \<le> p_y ((smoothParallax ^^ n) (parallax s)) \<and> p_y ((smoothParallax ^^ n) (parallax s)) \<le> 1"
  using assms smoothParallax_iter[of "parallax s" n] frame_parallax[of rnd now a b c s]
  by auto

text \<open>
  The theorem at \<open>sceneP\<close>: one frame moves the offset from (0, 1) to (0.06, 0.88).
\<close>

theorem parallax_stays_in_range_witness:
  "targetX (parallax sceneP) = 1 \<and> targetY (parallax sceneP) = - 1 \<and>
   p_x (parallax sceneP) = 0 \<and> p_y (parallax sceneP) = 1 \<and>
   frame (\<lambda>n. 0) 10016 10016 10016 10016 sceneP \<noteq> None \<and>
   p_x (parallax (fst (the (frame (\<lambda>n. 0) 10016 10016 10016 10016 sceneP)))) = 0.06 \<and>
   p_y (parallax (fst (the (frame (\<lambda>n. 0) 10016 10016 10016 10016 sceneP)))) = 0.88"
proof -
  have off: "\<not> chkMilky sceneP" by (simp add: sceneP_def sceneA_def)
  from frame_total_off[OF off] obtain s' ops where
    f: "frame (\<lambda>n. 0) 10016 10016 10016 10016 sceneP = Some (s', ops)" by blast
  have "parallax s' = smoothParallax (parallax sceneP)"
    using parallax_stays_in_range [of sceneP "\<lambda>n. 0" 10016 10016 10016 10016 1] f
    by (simp add: sceneP_def sceneA_def)
  with f show ?thesis
    by (simp add: sceneP_def sceneA_def smoothParallax_def)
qed

subsection \<open>The general star field\<close>

lemma makeStarsLoop_eq:
  "makeStarsLoop rnd w h count minD maxD i p arr =
     (arr @ map (\<lambda>k. makeStar rnd w h minD maxD (p + 8 * k)) [0..<nat (count - i)],
      p + 8 * nat (count - i))"
proof (induction rnd w h count minD maxD i p arr rule: makeStarsLoop.induct)
  case (1 rnd w h count minD maxD i p arr)
  show ?case
  proof (cases "i < count")
    case False
    then show ?thesis by (subst makeStarsLoop.simps) simp
  next
    case True
    then have n: "nat (count - i) = Suc (nat (count - (i + 1)))" by linarith
    have u: "map f [0..<Suc m] = f 0 # map (\<lambda>k. f (Suc k)) [0..<m]" for m and f :: "nat \<Rightarrow> star"
      by (simp add: upt_conv_Cons map_Suc_upt[symmetric] comp_def del: upt_Suc)
    have "makeStarsLoop rnd w h count minD maxD i p arr =
          makeStarsLoop rnd w h count minD maxD (i + 1) (p + 8) (arr @ [makeStar rnd w h minD maxD p])"
      using True by (subst makeStarsLoop.simps) simp
    also have "\<dots> = ((arr @ [makeStar rnd w h minD maxD p])
                        @ map (\<lambda>k. makeStar rnd w h minD maxD (p + 8 + 8 * k)) [0..<nat (count - (i + 1))],
                      p + 8 + 8 * nat (count - (i + 1)))"
      by (rule 1[OF True])
    also have "\<dots> = (arr @ map (\<lambda>k. makeStar rnd w h minD maxD (p + 8 * k)) [0..<nat (count - i)],
                      p + 8 * nat (count - i))"
      unfolding n u by (simp add: add.assoc)
    finally show ?thesis .
  qed
qed

lemma makeStars_eq:
  "fst (makeStars rnd s count minD maxD) =
     map (\<lambda>k. makeStar rnd (W s) (H s) minD maxD (rpos s + 8 * k)) [0..<nat count]"
  unfolding makeStars_def makeStarsLoop_eq by simp

lemma makeStar_depth_radius:
  "depth (makeStar rnd w h minD maxD p) = rand (rnd p) minD maxD"
  "s_r (makeStar rnd w h minD maxD p) =
     (1 - rand (rnd p) minD maxD) powr 1.2 * rand (rnd (p + 1)) 0.6 1.8 + 0.3"
  by (simp_all add: makeStar_def Let_def)

lemma upt2: "[0..<nat 2] = [0, 1]"
  by (simp add: upt_conv_Cons)

lemma two_stars:
  "fst (makeStars rnd sceneA 2 a b) = [makeStar rnd 800 600 a b 0, makeStar rnd 800 600 a b 8]"
  unfolding makeStars_eq upt2 by (simp add: sceneA_def)

lemma pow_bounds: "(4 / 5 :: real) powr 1.2 \<le> 4 / 5" "(9 / 25 :: real) \<le> (3 / 5) powr 1.2"
proof -
  show "(4 / 5 :: real) powr 1.2 \<le> 4 / 5" by (rule powr_le_one_le) simp_all
  have "(3 / 5 :: real) powr 2 \<le> (3 / 5) powr 1.2" by (rule powr_mono') simp_all
  then show "(9 / 25 :: real) \<le> (3 / 5) powr 1.2" by (simp add: power2_eq_square)
qed

text \<open>
  C6, as the script has it. The claim says that of two generated stars the one with the
  smaller depth has the strictly larger radius. The radius is
  \<^verbatim>\<open>Math.pow(1 - depth, 1.2) * rand(0.6, 1.8) + 0.3\<close>, with a jitter drawn for each star.
  On the source \<open>srcC\<close>, with the arguments of the script's only call, the first star has
  depth 0.2 and jitter 0.6, the second depth 0.4 and jitter 1.5, and the first (farther)
  star has the smaller radius. On the source \<open>srcN\<close>, with depths from 1 to 2, both stars
  have jitter 0.6, the first has depth 1 and radius 0.3, the second depth 1.5; its radius
  is NaN in the script and above 0.3 in the model, and in both it is not below 0.3.
\<close>

theorem makeStars_radius_not_decreasing_counterexample:
  "depth (fst (makeStars srcC sceneA 2 0.2 1.0) ! 0) = 0.2 \<and>
   depth (fst (makeStars srcC sceneA 2 0.2 1.0) ! 1) = 0.4 \<and>
   s_r (fst (makeStars srcC sceneA 2 0.2 1.0) ! 0) < s_r (fst (makeStars srcC sceneA 2 0.2 1.0) ! 1) \<and>
   depth (fst (makeStars srcN sceneA 2 1.0 2.0) ! 0) = 1 \<and>
   depth (fst (makeStars srcN sceneA 2 1.0 2.0) ! 1) = 1.5 \<and>
   srcN (rpos sceneA + 8 * 0 + 1) = srcN (rpos sceneA + 8 * 1 + 1) \<and>
   s_r (fst (makeStars srcN sceneA 2 1.0 2.0) ! 0) = 0.3 \<and>
   \<not> s_r (fst (makeStars srcN sceneA 2 1.0 2.0) ! 1) < s_r (fst (makeStars srcN sceneA 2 1.0 2.0) ! 0)"
proof -
  have d0: "depth (makeStar srcC 800 600 0.2 1.0 0) = 0.2"
    and d1: "depth (makeStar srcC 800 600 0.2 1.0 8) = 0.4"
    by (simp_all add: makeStar_depth_radius srcC_def rand_def)
  have r0: "s_r (makeStar srcC 800 600 0.2 1.0 0) = (4 / 5) powr 1.2 * (3 / 5) + 0.3"
    and r1: "s_r (makeStar srcC 800 600 0.2 1.0 8) = (3 / 5) powr 1.2 * (3 / 2) + 0.3"
    by (simp_all add: makeStar_depth_radius srcC_def rand_def)
  have "(4 / 5 :: real) powr 1.2 * (3 / 5) \<le> 4 / 5 * (3 / 5)"
    using pow_bounds(1) by (intro mult_right_mono) simp_all
  moreover have "(9 / 25 :: real) * (3 / 2) \<le> (3 / 5) powr 1.2 * (3 / 2)"
    using pow_bounds(2) by (intro mult_right_mono) simp_all
  ultimately have "(4 / 5 :: real) powr 1.2 * (3 / 5) + 0.3 < (3 / 5) powr 1.2 * (3 / 2) + 0.3" by simp
  then have c: "s_r (makeStar srcC 800 600 0.2 1.0 0) < s_r (makeStar srcC 800 600 0.2 1.0 8)"
    unfolding r0 r1 .
  have e0: "depth (makeStar srcN 800 600 1.0 2.0 0) = 1"
    and e1: "depth (makeStar srcN 800 600 1.0 2.0 8) = 1.5"
    by (simp_all add: makeStar_depth_radius srcN_def rand_def)
  have q0: "s_r (makeStar srcN 800 600 1.0 2.0 0) = 0.3"
    by (simp add: makeStar_depth_radius srcN_def rand_def)
  have q1: "s_r (makeStar srcN 800 600 1.0 2.0 8) = (- 1 / 2) powr 1.2 * (3 / 5) + 0.3"
    by (simp add: makeStar_depth_radius srcN_def rand_def)
  have "(0::real) \<le> (- 1 / 2) powr 1.2 * (3 / 5)" by simp
  then have n: "\<not> s_r (makeStar srcN 800 600 1.0 2.0 8) < s_r (makeStar srcN 800 600 1.0 2.0 0)"
    unfolding q0 q1 by simp
  have j: "srcN (rpos sceneA + 8 * 0 + 1) = srcN (rpos sceneA + 8 * 1 + 1)"
    by (simp add: srcN_def sceneA_def)
  from d0 d1 c e0 e1 q0 n j show ?thesis unfolding two_stars by simp
qed

text \<open>
  C6 amended. For draws in the unit interval and \<open>minDepth \<le> maxDepth\<close>,
  \<^verbatim>\<open>makeStars\<close> returns \<open>count\<close> stars; the depth of each lies between \<open>minDepth\<close>
  and \<open>maxDepth\<close>; its radius is \<open>(1 - depth) powr 1.2\<close> times its own jitter plus 0.3,
  the jitter lying between 0.6 and 1.8. Of two generated stars, the one with the smaller
  depth has the strictly larger radius whenever its jitter is at least the jitter of the
  other and the depth of the other is at most 1. The order is strict over the real
  numbers, which model the numbers of the script; in double arithmetic two radii that
  differ by less than the rounding come out equal.
\<close>

theorem makeStars_depth_and_radius:
  assumes "\<forall>n. 0 \<le> rnd n \<and> rnd n \<le> 1" and "minDepth \<le> maxDepth"
  shows "length (fst (makeStars rnd s count minDepth maxDepth)) = nat count \<and>
         (\<forall>k < nat count.
            minDepth \<le> depth (fst (makeStars rnd s count minDepth maxDepth) ! k) \<and>
            depth (fst (makeStars rnd s count minDepth maxDepth) ! k) \<le> maxDepth \<and>
            s_r (fst (makeStars rnd s count minDepth maxDepth) ! k) =
              (1 - depth (fst (makeStars rnd s count minDepth maxDepth) ! k)) powr 1.2
                * rand (rnd (rpos s + 8 * k + 1)) 0.6 1.8 + 0.3 \<and>
            0.6 \<le> rand (rnd (rpos s + 8 * k + 1)) 0.6 1.8 \<and>
            rand (rnd (rpos s + 8 * k + 1)) 0.6 1.8 \<le> 1.8) \<and>
         (\<forall>j < nat count. \<forall>k < nat count.
            rand (rnd (rpos s + 8 * k + 1)) 0.6 1.8 \<le> rand (rnd (rpos s + 8 * j + 1)) 0.6 1.8 \<and>
            depth (fst (makeStars rnd s count minDepth maxDepth) ! j)
              < depth (fst (makeStars rnd s count minDepth maxDepth) ! k) \<and>
            depth (fst (makeStars rnd s count minDepth maxDepth) ! k) \<le> 1
            \<longrightarrow> s_r (fst (makeStars rnd s count minDepth maxDepth) ! k)
                  < s_r (fst (makeStars rnd s count minDepth maxDepth) ! j))"
proof -
  let ?st = "fst (makeStars rnd s count minDepth maxDepth)"
  let ?J = "\<lambda>k. rand (rnd (rpos s + 8 * k + 1)) 0.6 1.8"
  have len: "length ?st = nat count" unfolding makeStars_eq by simp
  have nth: "?st ! k = makeStar rnd (W s) (H s) minDepth maxDepth (rpos s + 8 * k)"
    if "k < nat count" for k
    unfolding makeStars_eq using that by simp
  have dep: "minDepth \<le> depth (?st ! k) \<and> depth (?st ! k) \<le> maxDepth" if "k < nat count" for k
    unfolding nth[OF that] makeStar_depth_radius
    using rand_range[of "rnd (rpos s + 8 * k)" minDepth maxDepth] assms by blast
  have rad: "s_r (?st ! k) = (1 - depth (?st ! k)) powr 1.2 * ?J k + 0.3"
    if "k < nat count" for k
    unfolding nth[OF that] makeStar_depth_radius by (simp add: add.assoc)
  have jit: "0.6 \<le> ?J k \<and> ?J k \<le> 1.8" for k
  proof -
    have "(0.6::real) \<le> 1.8" by simp
    with rand_range[of "rnd (rpos s + 8 * k + 1)" "0.6" "1.8"] assms(1) show ?thesis by blast
  qed
  have mono: "s_r (?st ! k) < s_r (?st ! j)"
    if "j < nat count" "k < nat count" "?J k \<le> ?J j"
       "depth (?st ! j) < depth (?st ! k)" "depth (?st ! k) \<le> 1" for j k
  proof -
    from jit[of k] have J: "0 < ?J k" by simp
    from that(5) have "0 \<le> 1 - depth (?st ! k)" by simp
    moreover from that(4) have "1 - depth (?st ! k) < 1 - depth (?st ! j)" by simp
    moreover have "(0::real) < 1.2" by simp
    ultimately have "(1 - depth (?st ! k)) powr 1.2 < (1 - depth (?st ! j)) powr 1.2"
      by (rule powr_less_mono2[rotated -1, rotated -1])
    from this J have "(1 - depth (?st ! k)) powr 1.2 * ?J k < (1 - depth (?st ! j)) powr 1.2 * ?J k"
      by (rule mult_strict_right_mono)
    also have "\<dots> \<le> (1 - depth (?st ! j)) powr 1.2 * ?J j"
      using that(3) by (intro mult_left_mono) simp_all
    finally show ?thesis unfolding rad[OF that(1)] rad[OF that(2)] by simp
  qed
  show ?thesis
  proof (intro conjI allI impI)
    show "length ?st = nat count" by (rule len)
  next
    fix k assume "k < nat count"
    then show "minDepth \<le> depth (?st ! k)" "depth (?st ! k) \<le> maxDepth" using dep by blast+
  next
    fix k assume "k < nat count"
    then show "s_r (?st ! k) = (1 - depth (?st ! k)) powr 1.2 * rand (rnd (rpos s + 8 * k + 1)) 0.6 1.8 + 0.3"
      by (rule rad)
  next
    fix k
    from jit[of k]
    show "0.6 \<le> rand (rnd (rpos s + 8 * k + 1)) 0.6 1.8"
      "rand (rnd (rpos s + 8 * k + 1)) 0.6 1.8 \<le> 1.8" by blast+
  next
    fix j k
    assume "j < nat count" "k < nat count"
      "?J k \<le> ?J j \<and> depth (?st ! j) < depth (?st ! k) \<and> depth (?st ! k) \<le> 1"
    then show "s_r (?st ! k) < s_r (?st ! j)" using mono by blast
  qed
qed

text \<open>
  The theorem on the source \<open>srcW\<close>, with the arguments of the script's only call: two
  stars of depths 0.2 and 0.4 and jitters 1.2 and 0.6; the second, nearer one has the
  smaller radius.
\<close>

theorem makeStars_depth_and_radius_witness:
  "(\<forall>n. 0 \<le> srcW n \<and> srcW n \<le> 1) \<and> (0.2::real) \<le> 1.0 \<and>
   length (fst (makeStars srcW sceneA 2 0.2 1.0)) = 2 \<and>
   depth (fst (makeStars srcW sceneA 2 0.2 1.0) ! 0) = 0.2 \<and>
   depth (fst (makeStars srcW sceneA 2 0.2 1.0) ! 1) = 0.4 \<and>
   rand (srcW (rpos sceneA + 8 * 0 + 1)) 0.6 1.8 = 1.2 \<and>
   rand (srcW (rpos sceneA + 8 * 1 + 1)) 0.6 1.8 = 0.6 \<and>
   s_r (fst (makeStars srcW sceneA 2 0.2 1.0) ! 1) < s_r (fst (makeStars srcW sceneA 2 0.2 1.0) ! 0)"
proof -
  have src: "\<forall>n. 0 \<le> srcW n \<and> srcW n \<le> 1" by (simp add: srcW_def)
  have le: "(0.2::real) \<le> 1.0" by simp
  have d0: "depth (makeStar srcW 800 600 0.2 1.0 0) = 0.2"
    and d1: "depth (makeStar srcW 800 600 0.2 1.0 8) = 0.4"
    by (simp_all add: makeStar_depth_radius srcW_def rand_def)
  have j0: "rand (srcW (rpos sceneA + 8 * 0 + 1)) 0.6 1.8 = 1.2"
    and j1: "rand (srcW (rpos sceneA + 8 * 1 + 1)) 0.6 1.8 = 0.6"
    by (simp_all add: srcW_def sceneA_def rand_def)
  note t = makeStars_depth_and_radius [of srcW "0.2" "1.0" sceneA 2, OF src le]
  have len: "length (fst (makeStars srcW sceneA 2 0.2 1.0)) = 2"
    using t by simp
  have "s_r (fst (makeStars srcW sceneA 2 0.2 1.0) ! 1) < s_r (fst (makeStars srcW sceneA 2 0.2 1.0) ! 0)"
  proof (rule t[THEN conjunct2, THEN conjunct2, rule_format, of 0 1])
    show "rand (srcW (rpos sceneA + 8 * 1 + 1)) 0.6 1.8 \<le> rand (srcW (rpos sceneA + 8 * 0 + 1)) 0.6 1.8 \<and>
          depth (fst (makeStars srcW sceneA 2 0.2 1.0) ! 0) < depth (fst (makeStars srcW sceneA 2 0.2 1.0) ! 1) \<and>
          depth (fst (makeStars srcW sceneA 2 0.2 1.0) ! 1) \<le> 1"
      unfolding j0 j1 two_stars using d0 d1 by simp
  qed simp_all
  with len show ?thesis using src j0 j1 d0 d1 unfolding two_stars by simp
qed

subsection \<open>The band star field\<close>

lemma bandLoop_stop:
  assumes "\<not> (int (length arr) < count \<and> tries < count * 30)"
  shows "makeBandStarsLoop rnd s count arr tries p = Some (arr, tries, p)"
  by (subst makeBandStarsLoop.simps) (simp only: assms if_False)

lemma bandLoop_step:
  assumes "int (length arr) < count" "tries < count * 30" "gaussian rnd (p + 1) = Some (g, p1)"
  shows "makeBandStarsLoop rnd s count arr tries p = makeBandStarsLoop rnd s count arr (tries + 1) p1 \<or>
         (\<exists>st. makeBandStarsLoop rnd s count arr tries p =
                 makeBandStarsLoop rnd s count (arr @ [st]) (tries + 1) (p1 + 4))"
  unfolding makeBandStarsLoop.simps[of rnd s count arr tries p]
  using assms by (auto simp: Let_def)

lemma bandLoop_total:
  assumes "fairSource rnd"
  shows "tries \<le> count * 30 \<Longrightarrow> int (length arr) \<le> count \<Longrightarrow>
         \<exists>arr' tries' p'. makeBandStarsLoop rnd s count arr tries p = Some (arr', tries', p') \<and>
            tries \<le> tries' \<and> tries' \<le> count * 30 \<and>
            length arr \<le> length arr' \<and> int (length arr') \<le> count \<and>
            int (length arr') - int (length arr) \<le> tries' - tries \<and>
            (int (length arr') < count \<longrightarrow> tries' = count * 30)"
proof (induction "nat (count * 30 - tries)" arbitrary: arr tries p rule: less_induct)
  case less
  show ?case
  proof (cases "int (length arr) < count \<and> tries < count * 30")
    case False
    with less.prems show ?thesis
      by (simp add: bandLoop_stop[OF False]) linarith
  next
    case True
    from gaussian_total[OF assms] obtain g p1 where g: "gaussian rnd (p + 1) = Some (g, p1)" by blast
    from True have m: "nat (count * 30 - (tries + 1)) < nat (count * 30 - tries)" by linarith
    from True have t1: "tries + 1 \<le> count * 30" by linarith
    from bandLoop_step[OF _ _ g, of arr count tries s] True
    consider (rej) "makeBandStarsLoop rnd s count arr tries p = makeBandStarsLoop rnd s count arr (tries + 1) p1"
      | (acc) st where "makeBandStarsLoop rnd s count arr tries p =
                 makeBandStarsLoop rnd s count (arr @ [st]) (tries + 1) (p1 + 4)"
      by blast
    then show ?thesis
    proof cases
      case rej
      from less.hyps[OF m t1 less.prems(2), of p1] rej show ?thesis
        by (auto; linarith)
    next
      case acc
      from True have l: "int (length (arr @ [st])) \<le> count" by simp
      from less.hyps[OF m t1 l, of "p1 + 4"] acc show ?thesis
        by (auto; linarith)
    qed
  qed
qed

text \<open>
  C2. On a fair source and for \<open>count \<ge> 0\<close>, \<^verbatim>\<open>makeBandStars(count)\<close> returns: its loop
  ends with at most \<open>30 * count\<close> attempts and at most \<open>count\<close> stars, each star
  having cost an attempt, and with fewer than \<open>count\<close> stars only when all
  \<open>30 * count\<close> attempts are used; the function then returns the shorter array.
\<close>

theorem makeBandStars_bounded:
  assumes "0 \<le> count" and "fairSource rnd"
  shows "\<exists>arr tries p.
           makeBandStarsLoop rnd s count [] 0 (rpos s) = Some (arr, tries, p) \<and>
           makeBandStars rnd s count = Some (arr, p) \<and>
           tries \<le> 30 * count \<and>
           int (length arr) \<le> count \<and>
           int (length arr) \<le> tries \<and>
           (int (length arr) < count \<longrightarrow> tries = 30 * count)"
proof -
  from assms(1) have "(0::int) \<le> count * 30" "int (length ([]::star list)) \<le> count" by simp_all
  from bandLoop_total[OF assms(2) this, of s "rpos s"]
  obtain arr tries p where "makeBandStarsLoop rnd s count [] 0 (rpos s) = Some (arr, tries, p)"
    "tries \<le> count * 30" "int (length arr) \<le> count" "int (length arr) \<le> tries"
    "int (length arr) < count \<longrightarrow> tries = count * 30"
    by auto
  then show ?thesis by (auto simp: makeBandStars_def)
qed

lemma srcB_fair: "fairSource srcB"
  unfolding fairSource_def
proof
  fix n
  have "n \<le> n \<and> srcB n \<noteq> 0" by (simp add: srcB_def)
  then show "\<exists>m\<ge>n. srcB m \<noteq> 0" by blast
qed

lemma srcB_gauss: "gaussian srcB (Suc 0) = Some (0, 3)"
  by (simp add: gaussian_def drawNonzero.simps srcB_def)

lemma srcB_loop:
  "makeBandStarsLoop srcB sceneA 1 [] 0 0 =
     Some ([\<lparr>s_x = 400, s_y = 300, s_r = 63 / 25, baseAlpha = 1, twinkleSpeed = 1, phase = pi,
             tone = 225, depth = 1 / 10\<rparr>], 1, 7)"
  by (simp add: makeBandStarsLoop.simps srcB_gauss Let_def sceneA_def rand_def clamp_def srcB_def TWO_PI_def)


lemma hypot_800_600: "hypot 800 600 = 1000"
  unfolding hypot_def by (rule real_sqrt_unique) simp_all

lemma cos_3pi_2: "cos (3 * pi / 2) = 0"
  using cos_3over2_pi by (simp add: field_simps)

lemma srcE_gauss: "gaussian srcE p = Some (0, p + 2)"
  by (simp add: gaussian_def drawNonzero.simps srcE_def cos_3pi_2)

lemma srcE_reject:
  assumes "tries < 30"
  shows "makeBandStarsLoop srcE sceneA 1 [] tries p = makeBandStarsLoop srcE sceneA 1 [] (tries + 1) (p + 3)"
  using assms
  by (subst makeBandStarsLoop.simps)
     (simp add: srcE_gauss Let_def sceneA_def rand_def hypot_800_600 srcE_def numeral_3_eq_3)

lemma srcE_loop:
  "tries \<le> 30 \<Longrightarrow>
   makeBandStarsLoop srcE sceneA 1 [] tries p = Some ([], 30, p + 3 * nat (30 - tries))"
proof (induction "nat (30 - tries)" arbitrary: tries p)
  case 0
  then have "tries = 30" by simp
  then show ?case by (subst makeBandStarsLoop.simps) simp
next
  case (Suc n)
  then have lt: "tries < 30" and n: "n = nat (30 - (tries + 1))" and le: "tries + 1 \<le> 30" by linarith+
  have "3 + (p + 3 * nat (29 - tries)) = p + 3 * nat (30 - tries)" using lt by linarith
  with Suc.hyps(1)[OF n le, of "p + 3"] show ?case
    by (simp add: srcE_reject[OF lt])
qed


lemma srcE_fair: "fairSource srcE"
  unfolding fairSource_def
proof
  fix n
  have "n \<le> n \<and> srcE n \<noteq> 0" by (simp add: srcE_def)
  then show "\<exists>m\<ge>n. srcE m \<noteq> 0" by blast
qed

text \<open>
  The theorem at \<open>sceneA\<close> and \<open>count = 1\<close>: on \<open>srcB\<close> the loop returns one star after one
  attempt; on \<open>srcE\<close> it gives up after 30 attempts and returns no star.
\<close>

theorem makeBandStars_bounded_witness:
  "(0::int) \<le> 1 \<and> fairSource srcB \<and> fairSource srcE \<and>
   makeBandStarsLoop srcB sceneA 1 [] 0 (rpos sceneA) =
     Some ([\<lparr>s_x = 400, s_y = 300, s_r = 63 / 25, baseAlpha = 1, twinkleSpeed = 1, phase = pi,
             tone = 225, depth = 1 / 10\<rparr>], 1, 7) \<and>
   makeBandStarsLoop srcE sceneA 1 [] 0 (rpos sceneA) = Some ([], 30, 90) \<and>
   makeBandStars srcE sceneA 1 = Some ([], 90)"
proof -
  have r: "rpos sceneA = 0" by (simp add: sceneA_def)
  have e: "makeBandStarsLoop srcE sceneA 1 [] 0 (rpos sceneA) = Some ([], 30, 90)"
    unfolding r using srcE_loop[of 0 0] by simp
  from makeBandStars_bounded [of 1 srcE sceneA, OF _ srcE_fair] e
  have "makeBandStars srcE sceneA 1 = Some ([], 90)" by simp
  with e srcB_fair srcE_fair srcB_loop show ?thesis by (simp add: r)
qed

subsection \<open>The band toggle\<close>

lemma drawMilky_clean:
  assumes "chkMilky s" "\<not> dirty (milky s)" "texture (milky s) = Some tex"
  shows "drawMilky rnd s =
           Some (s, [DrawImage tex 0.9 (real_of_int (tex_width tex) / DPR s)
                                       (real_of_int (tex_height tex) / DPR s)])"
  using assms by (simp add: drawMilky_def)

lemma drawTrail_noBand: "\<forall>op \<in> set (drawTrail rnd tr p n). \<not> bandOp op"
  by (induction n arbitrary: p) (simp_all add: Let_def)

lemma drawStar_noBand: "op \<in> set (drawStar sc t k s) \<Longrightarrow> \<not> bandOp op"
  by (auto simp: drawStar_def Let_def split: if_splits)

lemma drawStars_noBand: "\<forall>op \<in> set (drawStars sc now lst k). \<not> bandOp op"
  using drawStar_noBand by (fastforce simp: drawStars_def Let_def)

lemma handleMeteors_noBand: "\<forall>op \<in> set (snd (handleMeteors rnd now dt s)). \<not> bandOp op"
  using drawTrail_noBand
  by (auto simp: handleMeteors_def updatePhase_def Let_def split: option.splits)

lemma handleMeteors_milky [simp]:
  "milky (fst (handleMeteors rnd now dt s)) = milky s"
  "chkMilky (fst (handleMeteors rnd now dt s)) = chkMilky s"
  "DPR (fst (handleMeteors rnd now dt s)) = DPR s"
  by (subst handleMeteors_shape, simp)+

lemma frame_off:
  assumes "\<not> chkMilky s"
  shows "\<exists>s' ops. frame rnd now a b c s = Some (s', ops) \<and> milky s' = milky s \<and> \<not> chkMilky s'
           \<and> DPR s' = DPR s \<and> (\<forall>op \<in> set ops. \<not> bandOp op)"
proof -
  let ?s1 = "s\<lparr>lastT := now, parallax := smoothParallax (parallax s)\<rparr>"
  let ?h = "handleMeteors rnd c (now - lastT s) ?s1"
  have d: "drawMilky rnd ?s1 = Some (?s1, [])" using assms by (simp add: drawMilky_off)
  have f: "frame rnd now a b c s =
        Some (fst ?h, ClearRect (W s) (H s) # [] @ (drawStars ?s1 a (stars ?s1) 0.8 @ drawStars ?s1 b (bandStars ?s1) 1.2) @ snd ?h)"
    by (simp add: frame_def Let_def d split: prod.splits)
  show ?thesis
    unfolding f using assms drawStars_noBand handleMeteors_noBand by auto
qed

lemma fire_off:
  assumes "\<not> chkMilky s" "\<not> changesGeometry ev" "ev \<noteq> ChangeMilky True"
  shows "\<exists>s' ops. fire rnd ev s = Some (s', ops) \<and> milky s' = milky s \<and> \<not> chkMilky s'
           \<and> DPR s' = DPR s \<and> (\<forall>op \<in> set ops. \<not> bandOp op)"
proof (cases ev)
  case (Frame now a b c)
  with frame_off[OF assms(1), of rnd now a b c] show ?thesis by simp
next
  case (ChangeMilky b)
  with assms show ?thesis by (simp add: onChangeMilky_def)
qed (use assms in \<open>auto simp: onPointer_def onChangeTwinkle_def onChangeMeteors_def Let_def\<close>)

lemma run_off:
  assumes "\<not> chkMilky s" "\<forall>ev \<in> set evs. \<not> changesGeometry ev \<and> ev \<noteq> ChangeMilky True"
  shows "\<exists>s' ops. run rnd evs s = Some (s', ops) \<and> milky s' = milky s \<and> \<not> chkMilky s'
           \<and> DPR s' = DPR s \<and> (\<forall>op \<in> set ops. \<not> bandOp op)"
  using assms
proof (induction evs arbitrary: s)
  case Nil
  then show ?case by simp
next
  case (Cons ev evs)
  from Cons.prems have e: "\<not> changesGeometry ev" "ev \<noteq> ChangeMilky True" by simp_all
  from fire_off[OF Cons.prems(1) e, of rnd] obtain s1 ops1 where
    1: "fire rnd ev s = Some (s1, ops1)" "milky s1 = milky s" "\<not> chkMilky s1" "DPR s1 = DPR s"
       "\<forall>op \<in> set ops1. \<not> bandOp op" by blast
  from Cons.prems have "\<forall>ev \<in> set evs. \<not> changesGeometry ev \<and> ev \<noteq> ChangeMilky True" by simp
  from Cons.IH[OF 1(3) this] obtain s2 ops2 where
    2: "run rnd evs s1 = Some (s2, ops2)" "milky s2 = milky s1" "\<not> chkMilky s2" "DPR s2 = DPR s1"
       "\<forall>op \<in> set ops2. \<not> bandOp op" by blast
  from 1 2 show ?case by auto
qed

lemma frame_clean:
  assumes "chkMilky s" "\<not> dirty (milky s)" "texture (milky s) = Some tex"
  shows "\<exists>s' ops. frame rnd now a b c s = Some (s', ops) \<and> milky s' = milky s
           \<and> (\<forall>w h. CreateCanvas w h \<notin> set ops)
           \<and> DrawImage tex 0.9 (real_of_int (tex_width tex) / DPR s)
                                 (real_of_int (tex_height tex) / DPR s) \<in> set ops"
proof -
  let ?s1 = "s\<lparr>lastT := now, parallax := smoothParallax (parallax s)\<rparr>"
  let ?h = "handleMeteors rnd c (now - lastT s) ?s1"
  let ?img = "DrawImage tex 0.9 (real_of_int (tex_width tex) / DPR s) (real_of_int (tex_height tex) / DPR s)"
  have d: "drawMilky rnd ?s1 = Some (?s1, [?img])"
    using assms drawMilky_clean[of ?s1 tex rnd] by simp
  have f: "frame rnd now a b c s =
        Some (fst ?h, ClearRect (W s) (H s) # [?img] @ (drawStars ?s1 a (stars ?s1) 0.8 @ drawStars ?s1 b (bandStars ?s1) 1.2) @ snd ?h)"
    by (simp add: frame_def Let_def d split: prod.splits)
  have "\<not> bandOp (CreateCanvas w h) \<Longrightarrow> False" for w h by simp
  then show ?thesis
    unfolding f using drawStars_noBand handleMeteors_noBand by fastforce
qed


text \<open>
  C8. Let the band box be cleared, and let any callbacks follow that neither change the
  geometry (no resize, no click) nor check the box again. All of them return; the band
  state (angle, width, cached texture, staleness flag) is as it was before the box was
  cleared; none of the frames builds or draws the texture. If the texture was present and
  not stale when the box was cleared, then the frame after the box is checked again draws
  that texture and does not rebuild it.
\<close>

theorem band_toggle_keeps_texture:
  assumes "\<forall>ev \<in> set evs. \<not> changesGeometry ev \<and> ev \<noteq> ChangeMilky True"
  shows "\<exists>s1 ops.
           run rnd (ChangeMilky False # evs) s = Some (s1, ops) \<and>
           milky s1 = milky s \<and> \<not> chkMilky s1 \<and> (\<forall>op \<in> set ops. \<not> bandOp op) \<and>
           (\<forall>tex. texture (milky s) = Some tex \<and> \<not> dirty (milky s) \<longrightarrow>
              (\<exists>s2 ops2.
                 run rnd [ChangeMilky True, Frame now a b c] s1 = Some (s2, ops2) \<and>
                 milky s2 = milky s \<and> (\<forall>w h. CreateCanvas w h \<notin> set ops2) \<and>
                 DrawImage tex 0.9 (real_of_int (tex_width tex) / DPR s)
                                   (real_of_int (tex_height tex) / DPR s) \<in> set ops2))"
proof -
  let ?s0 = "onChangeMilky False s"
  have off: "\<not> chkMilky ?s0" and m0: "milky ?s0 = milky s" and d0: "DPR ?s0 = DPR s"
    by (simp_all add: onChangeMilky_def)
  from run_off[OF off assms, of rnd] obtain s1 ops where
    r: "run rnd evs ?s0 = Some (s1, ops)" "milky s1 = milky ?s0" "\<not> chkMilky s1" "DPR s1 = DPR ?s0"
       "\<forall>op \<in> set ops. \<not> bandOp op" by blast
  have run1: "run rnd (ChangeMilky False # evs) s = Some (s1, ops)"
    using r(1) by simp
  have again: "\<exists>s2 ops2.
                 run rnd [ChangeMilky True, Frame now a b c] s1 = Some (s2, ops2) \<and>
                 milky s2 = milky s \<and> (\<forall>w h. CreateCanvas w h \<notin> set ops2) \<and>
                 DrawImage tex 0.9 (real_of_int (tex_width tex) / DPR s)
                                   (real_of_int (tex_height tex) / DPR s) \<in> set ops2"
    if t: "texture (milky s) = Some tex" "\<not> dirty (milky s)" for tex
  proof -
    let ?s1 = "onChangeMilky True s1"
    have on: "chkMilky ?s1" "\<not> dirty (milky ?s1)" "texture (milky ?s1) = Some tex" "DPR ?s1 = DPR s"
      "milky ?s1 = milky s"
      using t r(2,4) m0 d0 by (simp_all add: onChangeMilky_def)
    from frame_clean[OF on(1,2,3), of rnd now a b c] obtain s2 ops2 where
      f: "frame rnd now a b c ?s1 = Some (s2, ops2)" "milky s2 = milky ?s1"
         "\<forall>w h. CreateCanvas w h \<notin> set ops2"
         "DrawImage tex 0.9 (real_of_int (tex_width tex) / DPR ?s1)
                                   (real_of_int (tex_height tex) / DPR ?s1) \<in> set ops2"
      by blast
    have "run rnd [ChangeMilky True, Frame now a b c] s1 = Some (s2, ops2)"
      using f(1) by simp
    with f on show ?thesis by simp
  qed
  from run1 r m0 again show ?thesis by auto
qed

text \<open>
  The theorem at \<open>sceneT\<close>: the box is cleared, one frame runs, the box is checked again,
  and the next frame draws the texture \<open>texT\<close> at 800 by 600.
\<close>

theorem band_toggle_keeps_texture_witness:
  "\<not> changesGeometry (Frame 10016 10016 10016 10016) \<and>
   Frame 10016 10016 10016 10016 \<noteq> ChangeMilky True \<and>
   texture (milky sceneT) = Some texT \<and> \<not> dirty (milky sceneT) \<and>
   run (\<lambda>n. 0) [ChangeMilky False, Frame 10016 10016 10016 10016] sceneT \<noteq> None \<and>
   milky (fst (the (run (\<lambda>n. 0) [ChangeMilky False, Frame 10016 10016 10016 10016] sceneT)))
     = milky sceneT \<and>
   DrawImage texT 0.9 800 600 \<in>
     set (snd (the (run (\<lambda>n. 0) [ChangeMilky True, Frame 10032 10032 10032 10032]
            (fst (the (run (\<lambda>n. 0) [ChangeMilky False, Frame 10016 10016 10016 10016] sceneT))))))"
proof -
  have h: "\<forall>ev \<in> set [Frame 10016 10016 10016 10016]. \<not> changesGeometry ev \<and> ev \<noteq> ChangeMilky True"
    by simp
  have t: "texture (milky sceneT) = Some texT \<and> \<not> dirty (milky sceneT)"
    by (simp add: sceneT_def)
  from band_toggle_keeps_texture [OF h, of "\<lambda>n. 0" sceneT 10032 10032 10032 10032] t
  obtain s1 ops s2 ops2 where
    "run (\<lambda>n. 0) [ChangeMilky False, Frame 10016 10016 10016 10016] sceneT = Some (s1, ops)"
    "milky s1 = milky sceneT"
    "run (\<lambda>n. 0) [ChangeMilky True, Frame 10032 10032 10032 10032] s1 = Some (s2, ops2)"
    "DrawImage texT 0.9 (real_of_int (tex_width texT) / DPR sceneT)
                        (real_of_int (tex_height texT) / DPR sceneT) \<in> set ops2"
    by blast
  moreover have "real_of_int (tex_width texT) / DPR sceneT = 800"
    "real_of_int (tex_height texT) / DPR sceneT = 600"
    by (simp_all add: texT_def sceneT_def sceneA_def)
  ultimately show ?thesis using t by simp
qed

subsection \<open>The meteor along a run\<close>

lemma pushTrail_length:
  "length tr \<le> 120 \<Longrightarrow> length (pushTrail tr smp) \<le> 120"
  by (simp add: pushTrail_def Let_def)

lemma pushTrail_eq:
  "length tr \<le> 120 \<Longrightarrow>
   pushTrail tr smp = (if length tr = 120 then tl (tr @ [smp]) else tr @ [smp])"
  by (simp add: pushTrail_def Let_def)

lemma advanceMeteor_trail:
  "trail (advanceMeteor dt m) =
     pushTrail (trail m) \<lparr>t_x = m_x (advanceMeteor dt m), t_y = m_y (advanceMeteor dt m),
                           t_t = age (advanceMeteor dt m)\<rparr>"
  by (simp add: advanceMeteor_def Let_def)

lemma advanceMeteor_length:
  "length (trail m) \<le> 120 \<Longrightarrow> length (trail (advanceMeteor dt m)) \<le> 120"
  by (simp add: advanceMeteor_trail pushTrail_length)

lemma fold_advance_length:
  "length (trail m) \<le> 120 \<Longrightarrow> length (trail (fold advanceMeteor dts m)) \<le> 120"
  by (induction dts arbitrary: m) (simp_all add: advanceMeteor_length)

lemma spawnPhase_meteor:
  "meteor (spawnPhase rnd now s) = meteor s \<or>
   (spawnDue now s \<and> (\<exists>m. meteor (spawnPhase rnd now s) = Some m \<and> trail m = [] \<and> age m = 0))"
  by (simp add: spawnPhase_def spawnMeteor_def Let_def)

lemma handleMeteors_meteor:
  "meteor (fst (handleMeteors rnd now dt s)) =
     (case meteor (spawnPhase rnd now s) of None \<Rightarrow> None
      | Some m \<Rightarrow> if cullDue s (advanceMeteor dt m) then None else Some (advanceMeteor dt m))"
  by (simp add: handleMeteors_def updatePhase_meteor cullDue_def split: option.splits)

lemma handleMeteors_ok:
  assumes "meteorOk s"
  shows "meteorOk (fst (handleMeteors rnd now dt s))"
proof (cases "meteor (spawnPhase rnd now s)")
  case None
  then show ?thesis by (simp add: meteorOk_def handleMeteors_meteor)
next
  case (Some m)
  from spawnPhase_meteor[of rnd now s] have len: "length (trail m) \<le> 120"
  proof
    assume "meteor (spawnPhase rnd now s) = meteor s"
    with Some assms show ?thesis by (simp add: meteorOk_def)
  next
    assume "spawnDue now s \<and> (\<exists>m. meteor (spawnPhase rnd now s) = Some m \<and> trail m = [] \<and> age m = 0)"
    with Some show ?thesis by auto
  qed
  show ?thesis
  proof (cases "cullDue s (advanceMeteor dt m)")
    case True
    with Some show ?thesis by (simp add: meteorOk_def handleMeteors_meteor)
  next
    case False
    then have "age (advanceMeteor dt m) \<le> life (advanceMeteor dt m)" by (simp add: cullDue_def)
    with False Some advanceMeteor_length[OF len, of dt] show ?thesis
      by (simp add: meteorOk_def handleMeteors_meteor)
  qed
qed

lemma meteorOk_cong: "meteor s' = meteor s \<Longrightarrow> meteorOk s' = meteorOk s"
  by (simp add: meteorOk_def)

lemma frame_ok:
  assumes "meteorOk s" "frame rnd now a b c s = Some (s', ops)"
  shows "meteorOk s'"
proof -
  from frame_shape[OF assms(2)] obtain s2 mops where
    d: "drawMilky rnd (s\<lparr>lastT := now, parallax := smoothParallax (parallax s)\<rparr>) = Some (s2, mops)"
    and e: "s' = fst (handleMeteors rnd c (now - lastT s) s2)" by blast
  have "meteor s2 = meteor s" by (subst drawMilky_shape[OF d]) simp
  with assms(1) have "meteorOk s2" using meteorOk_cong[of s2 s] by simp
  then show ?thesis unfolding e by (rule handleMeteors_ok)
qed

lemma fire_ok:
  assumes "meteorOk s" "fire rnd ev s = Some (s', ops)"
  shows "meteorOk s'"
proof (cases ev)
  case (Frame now a b c)
  with assms(2) have "frame rnd now a b c s = Some (s', ops)" by simp
  with assms(1) show ?thesis by (rule frame_ok)
next
  case (Resize vw vh)
  with assms have ss: "seedScene rnd (resize vw vh s) = Some (s', ops)" by (simp add: onResize_def)
  have "meteor s' = meteor (resize vw vh s)" by (subst seedScene_shape[OF ss]) simp
  then have "meteor s' = meteor s" by (simp add: resize_def)
  with assms(1) show ?thesis using meteorOk_cong[of s' s] by simp
next
  case Click
  with assms have oc: "onClick rnd s = Some s'" by auto
  have "meteor s' = meteor s" by (subst onClick_shape[OF oc]) simp
  with assms(1) show ?thesis using meteorOk_cong[of s' s] by simp
next
  case (Pointer e)
  with assms show ?thesis by (auto simp: onPointer_def Let_def meteorOk_def)
next
  case (ChangeTwinkle b)
  with assms show ?thesis by (auto simp: onChangeTwinkle_def meteorOk_def)
next
  case (ChangeMeteors b)
  with assms show ?thesis by (auto simp: onChangeMeteors_def Let_def meteorOk_def)
next
  case (ChangeMilky b)
  with assms show ?thesis by (auto simp: onChangeMilky_def meteorOk_def)
qed

lemma boot_seed:
  assumes "boot rnd dpr t0 t1 tw me mi vw vh = Some s"
  shows "\<exists>ops. seedScene rnd (resize vw vh (initScene rnd dpr t0 t1 tw me mi)) = Some (s, ops)"
  using assms by (auto simp: boot_def)

lemma boot_fields:
  assumes "boot rnd dpr t0 t1 tw me mi vw vh = Some s"
  shows "meteor s = None" "W s = vw" "H s = vh" "chkMeteors s = me" "chkMilky s = mi"
    "chkTwinkle s = tw" "lastT s = t1"
    "nextMeteorAt s = t0 + rand (rnd 0) METEOR_MIN_GAP METEOR_MAX_GAP"
    "parallax s = \<lparr>p_x = 0, p_y = 0, targetX = 0, targetY = 0\<rparr>"
proof -
  from boot_seed[OF assms] obtain ops where
    ss: "seedScene rnd (resize vw vh (initScene rnd dpr t0 t1 tw me mi)) = Some (s, ops)" by blast
  note e = seedScene_shape[OF ss]
  show "meteor s = None" by (subst e) (simp add: resize_def initScene_def)
  show "W s = vw" by (subst e) (simp add: resize_def initScene_def)
  show "H s = vh" by (subst e) (simp add: resize_def initScene_def)
  show "chkMeteors s = me" by (subst e) (simp add: resize_def initScene_def)
  show "chkMilky s = mi" by (subst e) (simp add: resize_def initScene_def)
  show "chkTwinkle s = tw" by (subst e) (simp add: resize_def initScene_def)
  show "lastT s = t1" by (subst e) (simp add: resize_def initScene_def)
  show "nextMeteorAt s = t0 + rand (rnd 0) METEOR_MIN_GAP METEOR_MAX_GAP"
    by (subst e) (simp add: resize_def initScene_def)
  show "parallax s = \<lparr>p_x = 0, p_y = 0, targetX = 0, targetY = 0\<rparr>"
    by (subst e) (simp add: resize_def initScene_def)
qed

lemma reachable_ok:
  assumes "reachable rnd s"
  shows "meteorOk s"
  using assms
proof (induction rule: reachable.induct)
  case (reach_boot dpr t0 t1 tw me mi vw vh s)
  from boot_fields(1)[OF this] show ?case by (simp add: meteorOk_def)
next
  case (reach_fire s ev s' ops)
  then show ?case using fire_ok by blast
qed

lemma cloudLoop_step:
  assumes "i < CLOUD_NODES" "gaussian rnd (p + 1) = Some (g, p1)" "gaussian rnd (p1 + 1) = Some (g2, p2)"
  shows "\<exists>b. cloudLoop rnd s i p acc = cloudLoop rnd s (i + 1) p2 (acc @ [b])"
  unfolding cloudLoop.simps[of rnd s i p acc]
  using assms by (auto simp: Let_def)

lemma cloudLoop_total:
  assumes "fairSource rnd"
  shows "\<exists>bs p'. cloudLoop rnd s i p acc = Some (bs, p')"
proof (induction "nat (CLOUD_NODES - i)" arbitrary: i p acc rule: less_induct)
  case less
  show ?case
  proof (cases "i < CLOUD_NODES")
    case False
    then show ?thesis by (subst cloudLoop.simps) simp
  next
    case True
    from gaussian_total[OF assms] obtain g p1 where g: "gaussian rnd (p + 1) = Some (g, p1)" by blast
    from gaussian_total[OF assms] obtain g2 p2 where g2: "gaussian rnd (p1 + 1) = Some (g2, p2)" by blast
    from cloudLoop_step[OF True g g2] obtain b where
      b: "cloudLoop rnd s i p acc = cloudLoop rnd s (i + 1) p2 (acc @ [b])" by blast
    from True have "nat (CLOUD_NODES - (i + 1)) < nat (CLOUD_NODES - i)" by linarith
    from less[OF this, of p2 "acc @ [b]"] b show ?thesis by simp
  qed
qed

lemma makeMilkyTexture_total:
  assumes "fairSource rnd"
  shows "\<exists>r. makeMilkyTexture rnd s = Some r"
proof -
  from cloudLoop_total[OF assms, of s 0 "rpos s" "[]"] obtain bs p where
    "cloudLoop rnd s 0 (rpos s) [] = Some (bs, p)" by blast
  then show ?thesis by (simp add: makeMilkyTexture_def Let_def)
qed

lemma makeBandStars_total:
  assumes "fairSource rnd"
  shows "\<exists>bs p. makeBandStars rnd s BAND_COUNT = Some (bs, p)"
proof -
  have "(0::int) \<le> BAND_COUNT * 30" "int (length ([]::star list)) \<le> BAND_COUNT"
    by (simp_all add: BAND_COUNT_def)
  from bandLoop_total[OF assms this, of s "rpos s"] show ?thesis
    by (auto simp: makeBandStars_def)
qed

lemma seedScene_total:
  assumes "fairSource rnd"
  shows "\<exists>r. seedScene rnd s = Some r"
proof -
  obtain st p1 where a: "makeStars rnd s STAR_COUNT 0.2 1.0 = (st, p1)"
    by (cases "makeStars rnd s STAR_COUNT 0.2 1.0")
  from makeBandStars_total[OF assms, of "s\<lparr>stars := st, rpos := p1\<rparr>"] obtain bs p2 where
    b: "makeBandStars rnd (s\<lparr>stars := st, rpos := p1\<rparr>) BAND_COUNT = Some (bs, p2)" by blast
  from makeMilkyTexture_total[OF assms, of "s\<lparr>stars := st, rpos := p1, bandStars := bs, rpos := p2\<rparr>"]
  obtain r where "makeMilkyTexture rnd (s\<lparr>stars := st, rpos := p1, bandStars := bs, rpos := p2\<rparr>) = Some r"
    by blast
  with a b show ?thesis by (simp add: seedScene_def Let_def)
qed

lemma boot_total:
  assumes "fairSource rnd"
  shows "\<exists>s. boot rnd dpr t0 t1 tw me mi vw vh = Some s"
  using seedScene_total[OF assms, of "resize vw vh (initScene rnd dpr t0 t1 tw me mi)"]
  by (auto simp: boot_def)

lemma srcH_fair: "fairSource srcH"
  unfolding fairSource_def
proof
  fix n
  have "n \<le> n \<and> srcH n \<noteq> 0" by (simp add: srcH_def)
  then show "\<exists>m\<ge>n. srcH m \<noteq> 0" by blast
qed

lemma sceneBoot_boot: "boot srcH None 0 7000 True True False 800 600 = Some sceneBoot"
  using boot_total[OF srcH_fair, of None 0 7000 True True False 800 600]
  by (auto simp: sceneBoot_def)

lemmas sceneBoot_fields = boot_fields[OF sceneBoot_boot]

lemma frame_off_eq:
  assumes "\<not> chkMilky s"
  shows "frame rnd now a b c s =
     Some (fst (handleMeteors rnd c (now - lastT s) (s\<lparr>lastT := now, parallax := smoothParallax (parallax s)\<rparr>)),
           ClearRect (W s) (H s) #
             (drawStars (s\<lparr>lastT := now, parallax := smoothParallax (parallax s)\<rparr>) a (stars s) 0.8 @
              drawStars (s\<lparr>lastT := now, parallax := smoothParallax (parallax s)\<rparr>) b (bandStars s) 1.2) @
             snd (handleMeteors rnd c (now - lastT s) (s\<lparr>lastT := now, parallax := smoothParallax (parallax s)\<rparr>)))"
  using assms by (simp add: frame_def Let_def drawMilky_off split: prod.splits)

lemma sceneFlight_frame:
  "\<exists>ops. frame srcH 7000 7000 7000 7000 sceneBoot = Some (sceneFlight, ops)"
  using frame_off_eq[of sceneBoot srcH 7000 7000 7000 7000]
  by (simp add: sceneFlight_def sceneBoot_fields)

lemma sceneFlight_reachable: "reachable srcH sceneFlight"
proof -
  have "reachable srcH sceneBoot" using sceneBoot_boot by (rule reach_boot)
  moreover from sceneFlight_frame obtain ops where
    "fire srcH (Frame 7000 7000 7000 7000) sceneBoot = Some (sceneFlight, ops)" by auto
  ultimately show ?thesis by (rule reach_fire)
qed

lemma sceneFlight_eq:
  "sceneFlight = fst (handleMeteors srcH 7000 0
       (sceneBoot\<lparr>lastT := 7000, parallax := smoothParallax (parallax sceneBoot)\<rparr>))"
  using frame_off_eq[of sceneBoot srcH 7000 7000 7000 7000]
  by (simp add: sceneFlight_def sceneBoot_fields)

lemma sceneFlight_meteor:
  "\<exists>m. meteor sceneFlight = Some m \<and> age m = 0 \<and> life m = 800 \<and> m_x m = 840 \<and> m_y m = 75
        \<and> length (trail m) = 1"
  unfolding sceneFlight_eq handleMeteors_meteor
  by (simp add: spawnPhase_def spawnDue_def spawnMeteor_def Let_def sceneBoot_fields srcH_def rand_def
      METEOR_MIN_GAP_def METEOR_MAX_GAP_def cullDue_def advanceMeteor_def pushTrail_def)

lemma sceneFlight_fields:
  "W sceneFlight = 800" "H sceneFlight = 600" "chkMeteors sceneFlight"
  unfolding sceneFlight_eq
  by (simp_all add: handleMeteors_def sceneBoot_fields)

lemma sceneFlight_next: "nextMeteorAt sceneFlight = 13650"
  unfolding sceneFlight_eq
  by (simp add: handleMeteors_next spawnDue_def sceneBoot_fields srcH_def rand_def
      METEOR_MIN_GAP_def METEOR_MAX_GAP_def)

lemma frame_meteor_fields:
  assumes "frame rnd now a b c s = Some (s', ops)"
  shows "\<exists>s2. s' = fst (handleMeteors rnd c (now - lastT s) s2) \<and> meteor s2 = meteor s \<and>
           nextMeteorAt s2 = nextMeteorAt s \<and> chkMeteors s2 = chkMeteors s \<and> W s2 = W s \<and> H s2 = H s"
proof -
  from frame_shape[OF assms] obtain s2 mops where
    d: "drawMilky rnd (s\<lparr>lastT := now, parallax := smoothParallax (parallax s)\<rparr>) = Some (s2, mops)"
    and e: "s' = fst (handleMeteors rnd c (now - lastT s) s2)" by blast
  note sh = drawMilky_shape[OF d]
  have "meteor s2 = meteor s" by (subst sh) simp
  moreover have "nextMeteorAt s2 = nextMeteorAt s" by (subst sh) simp
  moreover have "chkMeteors s2 = chkMeteors s" by (subst sh) simp
  moreover have "W s2 = W s" by (subst sh) simp
  moreover have "H s2 = H s" by (subst sh) simp
  ultimately show ?thesis using e by blast
qed

text \<open>
  C3. In every scene a run can reach, the trail of the meteor has at most 120 samples.
  One update of the meteor appends the sample of the new position and age, and drops the
  oldest sample when the trail was full; so after any number of updates the trail still
  has at most 120 samples.
\<close>

theorem meteor_trail_capped:
  assumes "reachable rnd s" and "meteor s = Some m"
  shows "length (trail m) \<le> 120 \<and>
         trail (advanceMeteor dt m) =
           (let tr1 = trail m @ [\<lparr>t_x = m_x (advanceMeteor dt m), t_y = m_y (advanceMeteor dt m),
                                   t_t = age (advanceMeteor dt m)\<rparr>]
            in if length (trail m) = 120 then tl tr1 else tr1) \<and>
         length (trail (fold advanceMeteor dts m)) \<le> 120"
proof -
  from reachable_ok[OF assms(1)] assms(2) have len: "length (trail m) \<le> 120"
    by (simp add: meteorOk_def)
  then show ?thesis
    by (simp add: advanceMeteor_trail pushTrail_eq fold_advance_length Let_def)
qed

text \<open>
  The theorem at \<open>sceneFlight\<close>: the meteor has one sample, two after an update of 16 ms,
  and at most 120 after 200 such updates.
\<close>

theorem meteor_trail_capped_witness:
  "reachable srcH sceneFlight \<and>
   meteor sceneFlight = Some (the (meteor sceneFlight)) \<and>
   length (trail (the (meteor sceneFlight))) = 1 \<and>
   length (trail (advanceMeteor 16 (the (meteor sceneFlight)))) = 2 \<and>
   length (trail (fold advanceMeteor (replicate 200 16) (the (meteor sceneFlight)))) \<le> 120"
proof -
  from sceneFlight_meteor obtain m where
    m: "meteor sceneFlight = Some m" "length (trail m) = 1" by blast
  from meteor_trail_capped [OF sceneFlight_reachable m(1), of 16 "replicate 200 16"] m
  show ?thesis using sceneFlight_reachable by (simp add: Let_def)
qed

text \<open>
  C1. In every scene a run can reach there is at most one meteor, and the spawn test of
  \<^verbatim>\<open>handleMeteors\<close> succeeds only when there is none; in particular, with an Active
  meteor (not due for the cleanup) the test fails and the spawn step changes nothing. A
  frame that starts with a meteor leaves the next-spawn timestamp as it is, and ends with
  that same meteor advanced, or with none.
\<close>

theorem single_meteor:
  assumes "reachable rnd s"
  shows "card (set_option (meteor s)) \<le> 1 \<and>
         (\<forall>now. spawnDue now s \<longrightarrow> meteor s = None) \<and>
         (\<forall>m now. meteor s = Some m \<and> \<not> cullDue s m \<longrightarrow>
            \<not> spawnDue now s \<and> spawnPhase rnd now s = s) \<and>
         (\<forall>m now a b c s' ops. meteor s = Some m \<and> frame rnd now a b c s = Some (s', ops) \<longrightarrow>
            nextMeteorAt s' = nextMeteorAt s \<and>
            (meteor s' = None \<or> meteor s' = Some (advanceMeteor (now - lastT s) m)))"
proof -
  note ok = reachable_ok[OF assms]
  have one: "card (set_option (meteor s)) \<le> 1" by (cases "meteor s") simp_all
  have absent: "meteor s = None" if "spawnDue now s" for now
    using that ok by (cases "meteor s") (simp_all add: spawnDue_def meteorOk_def)
  have active: "\<not> spawnDue now s \<and> spawnPhase rnd now s = s"
    if "meteor s = Some m" "\<not> cullDue s m" for m now
    using that by (simp add: spawnDue_def cullDue_def spawnPhase_def)
  have fr: "nextMeteorAt s' = nextMeteorAt s \<and>
            (meteor s' = None \<or> meteor s' = Some (advanceMeteor (now - lastT s) m))"
    if "meteor s = Some m" "frame rnd now a b c s = Some (s', ops)" for m now a b c s' ops
  proof -
    from frame_meteor_fields[OF that(2)] obtain s2 where
      s2: "s' = fst (handleMeteors rnd c (now - lastT s) s2)" "meteor s2 = meteor s"
          "nextMeteorAt s2 = nextMeteorAt s" by blast
    from ok that(1) have "age m \<le> life m" by (simp add: meteorOk_def)
    with s2(2) that(1) have ns: "\<not> spawnDue c s2" by (simp add: spawnDue_def)
    then have sp: "spawnPhase rnd c s2 = s2" by (simp add: spawnPhase_def)
    from ns have "nextMeteorAt s' = nextMeteorAt s2" unfolding s2(1) by (simp add: handleMeteors_next)
    moreover have "meteor s' = None \<or> meteor s' = Some (advanceMeteor (now - lastT s) m)"
      unfolding s2(1) handleMeteors_meteor sp using s2(2) that(1) by simp
    ultimately show ?thesis using s2(3) by simp
  qed
  from one absent active fr show ?thesis by blast
qed

text \<open>
  The theorem at \<open>sceneFlight\<close>: the meteor is Active, the box is checked and at time
  20000 the next-spawn timestamp 13650 has passed; the spawn test fails all the same.
\<close>

theorem single_meteor_witness:
  "reachable srcH sceneFlight \<and>
   meteor sceneFlight \<noteq> None \<and>
   \<not> cullDue sceneFlight (the (meteor sceneFlight)) \<and>
   chkMeteors sceneFlight \<and> nextMeteorAt sceneFlight \<le> 20000 \<and>
   \<not> spawnDue 20000 sceneFlight \<and>
   spawnPhase srcH 20000 sceneFlight = sceneFlight"
proof -
  from sceneFlight_meteor obtain m where
    m: "meteor sceneFlight = Some m" "age m = 0" "life m = 800" "m_x m = 840" "m_y m = 75" by blast
  then have nc: "\<not> cullDue sceneFlight m" by (simp add: cullDue_def sceneFlight_fields)
  from single_meteor [OF sceneFlight_reachable] m(1) nc
  have "\<not> spawnDue 20000 sceneFlight \<and> spawnPhase srcH 20000 sceneFlight = sceneFlight" by blast
  with m(1) nc show ?thesis
    using sceneFlight_reachable by (simp add: sceneFlight_fields sceneFlight_next)
qed

subsection \<open>Every callback returns on a fair source\<close>

lemma drawMilky_total:
  assumes "fairSource rnd"
  shows "\<exists>r. drawMilky rnd s = Some r"
proof (cases "chkMilky s \<and> (dirty (milky s) \<or> texture (milky s) = None)")
  case True
  from makeMilkyTexture_total[OF assms, of s] obtain s1 ops where
    "makeMilkyTexture rnd s = Some (s1, ops)" by auto
  with True show ?thesis by (auto simp: drawMilky_def split: option.splits)
next
  case False
  then show ?thesis by (auto simp: drawMilky_def split: option.splits)
qed

lemma frame_total:
  assumes "fairSource rnd"
  shows "\<exists>r. frame rnd now a b c s = Some r"
proof -
  from drawMilky_total[OF assms, of "s\<lparr>lastT := now, parallax := smoothParallax (parallax s)\<rparr>"]
  obtain s2 mops where
    "drawMilky rnd (s\<lparr>lastT := now, parallax := smoothParallax (parallax s)\<rparr>) = Some (s2, mops)"
    by auto
  then show ?thesis by (simp add: frame_def Let_def split: prod.splits)
qed

lemma fire_total:
  assumes "fairSource rnd"
  shows "\<exists>r. fire rnd ev s = Some r"
proof (cases ev)
  case (Frame now a b c)
  with frame_total[OF assms, of now a b c s] show ?thesis by simp
next
  case (Resize vw vh)
  with seedScene_total[OF assms, of "resize vw vh s"] show ?thesis by (simp add: onResize_def)
next
  case Click
  let ?s1 = "s\<lparr>milky := (milky s)\<lparr>angle := angle (milky s) + degToRad (rand (rnd (rpos s)) (- 8) 8),
                                    dirty := True\<rparr>,
                rpos := rpos s + 1\<rparr>"
  from makeBandStars_total[OF assms, of ?s1] obtain bs p where
    "makeBandStars rnd ?s1 BAND_COUNT = Some (bs, p)" by blast
  with Click show ?thesis by (simp add: onClick_def Let_def)
qed simp_all

end
